theory Spec2Isabelle
  imports Complex_Main
begin

section \<open>The RealSense base node (rs\_base.cpp)\<close>

text \<open>
  A shallow embedding of \<^verbatim>\<open>realsense_ros/src/rs_base.cpp\<close>. The class
  \<^verbatim>\<open>RealSenseBase\<close> becomes a record of its members; every member function
  takes the record and returns the updated one. What the functions do to the camera
  SDK and to the middleware (pipeline stop and start, the settling sleep, publishing
  a message) is appended to a trace, in program order. An exception, and a read that
  C++ leaves undefined, is a value of type \<open>error\<close>.
\<close>

subsection \<open>Values of the SDK and of the middleware\<close>

text \<open>
  Modelled from the spec: the stream kinds (the SDK's enumeration \<^verbatim>\<open>rs2_stream\<close>,
  declared outside this repository). A stream is the pair of a kind and an index.
\<close>

datatype rs2_stream =
    RS2_STREAM_DEPTH
  | RS2_STREAM_COLOR
  | RS2_STREAM_INFRARED
  | RS2_STREAM_FISHEYE
  | RS2_STREAM_GYRO
  | RS2_STREAM_ACCEL
  | RS2_STREAM_POSE

type_synonym stream_index_pair = "rs2_stream \<times> int"

text \<open>
  Modelled from the spec: the nine stream identities of the header
  \<^verbatim>\<open>rs_base.hpp\<close>, which is not among the sources (INFRARED 1 and 2,
  FISHEYE 1 and 2, index 0 for the streams that exist once).
\<close>

definition COLOR :: stream_index_pair where "COLOR = (RS2_STREAM_COLOR, 0)"
definition DEPTH :: stream_index_pair where "DEPTH = (RS2_STREAM_DEPTH, 0)"
definition INFRA1 :: stream_index_pair where "INFRA1 = (RS2_STREAM_INFRARED, 1)"
definition INFRA2 :: stream_index_pair where "INFRA2 = (RS2_STREAM_INFRARED, 2)"
definition FISHEYE1 :: stream_index_pair where "FISHEYE1 = (RS2_STREAM_FISHEYE, 1)"
definition FISHEYE2 :: stream_index_pair where "FISHEYE2 = (RS2_STREAM_FISHEYE, 2)"
definition GYRO :: stream_index_pair where "GYRO = (RS2_STREAM_GYRO, 0)"
definition ACCEL :: stream_index_pair where "ACCEL = (RS2_STREAM_ACCEL, 0)"
definition POSE :: stream_index_pair where "POSE = (RS2_STREAM_POSE, 0)"

text \<open>The SDK's pixel formats (\<^verbatim>\<open>rs2_format\<close>) and OpenCV's element types are enumerators.\<close>

type_synonym rs2_format = int

text \<open>\<^verbatim>\<open>rclcpp::Time\<close>: a count of nanoseconds.\<close>

type_synonym Time = int

text \<open>
  The value of a middleware parameter (\<^verbatim>\<open>rclcpp::ParameterValue\<close>), tagged with its
  \<^verbatim>\<open>rclcpp::ParameterType\<close>. Integers are 64-bit in the middleware.
\<close>

datatype ParameterValue =
    PARAMETER_NOT_SET
  | PARAMETER_BOOL bool
  | PARAMETER_INTEGER int
  | PARAMETER_DOUBLE real
  | PARAMETER_STRING string
  | PARAMETER_BYTE_ARRAY "nat list"
  | PARAMETER_BOOL_ARRAY "bool list"
  | PARAMETER_INTEGER_ARRAY "int list"
  | PARAMETER_DOUBLE_ARRAY "real list"
  | PARAMETER_STRING_ARRAY "string list"

text \<open>
  A conversion of a 64-bit integer to C++ \<^verbatim>\<open>int\<close> (32 bits, two's complement):
  \<^verbatim>\<open>static_cast<int>(res[0])\<close>, \<^verbatim>\<open>int fps = param.as_int()\<close>, and passing
  \<^verbatim>\<open>res[0]\<close> for an \<^verbatim>\<open>int\<close> argument of \<^verbatim>\<open>enable_stream\<close>.
\<close>

definition static_cast_int :: "int \<Rightarrow> int" where
  "static_cast_int x = (x + 2 ^ 31) mod 2 ^ 32 - 2 ^ 31"

text \<open>\<^verbatim>\<open>uint32_t\<close> fields of a message, assigned from an \<^verbatim>\<open>int\<close>.\<close>

definition static_cast_uint32 :: "int \<Rightarrow> int" where
  "static_cast_uint32 x = x mod 2 ^ 32"

text \<open>The result of a reconfiguration (\<^verbatim>\<open>rcl_interfaces::msg::SetParametersResult\<close>).\<close>

record Result =
  successful :: bool
  reason :: string

text \<open>\<^verbatim>\<open>std_msgs::msg::Header\<close>.\<close>

record Header =
  stamp :: Time
  frame_id :: string

text \<open>
  \<^verbatim>\<open>sensor_msgs::msg::CameraInfo\<close>. \<open>k\<close>, \<open>r\<close> and \<open>p\<close> are arrays of 9, 9
  and 12 doubles, \<open>d\<close> is a vector. No arithmetic is done on the numbers: they are
  copied from the intrinsics or set to 0 and 1, so they are carried as reals.
\<close>

record CameraInfo =
  header :: Header
  cam_height :: int
  cam_width :: int
  distortion_model :: string
  d :: "real list"
  k :: "real list"
  r :: "real list"
  p :: "real list"

text \<open>A value-initialised message: zeros and empty strings.\<close>

definition CameraInfo_init :: CameraInfo where
  "CameraInfo_init =
     \<lparr>header = \<lparr>stamp = 0, frame_id = []\<rparr>, cam_height = 0, cam_width = 0,
      distortion_model = [], d = [], k = replicate 9 0, r = replicate 9 0,
      p = replicate 12 0\<rparr>"

text \<open>\<^verbatim>\<open>sensor_msgs::msg::Image\<close>, as \<^verbatim>\<open>cv_bridge\<close> fills it from the wrapped frame.\<close>

record Image =
  img_header :: Header
  img_height :: int
  img_width :: int
  encoding :: string
  data :: "nat list"

datatype message = ImageMsg Image | CameraInfoMsg CameraInfo

text \<open>\<^verbatim>\<open>rs2_intrinsics\<close>, and a video stream profile of the SDK with its intrinsics.\<close>

record rs2_intrinsics =
  intr_width :: int
  intr_height :: int
  ppx :: real
  ppy :: real
  fx :: real
  fy :: real
  coeffs :: "real list"

record video_stream_profile =
  stream_type :: rs2_stream
  stream_index :: int
  get_intrinsics :: rs2_intrinsics

datatype stream_profile =
    as_video_stream_profile video_stream_profile
  | other_profile rs2_stream int

text \<open>A video frame of the SDK: its profile's stream, its size and its pixel buffer.\<close>

record video_frame =
  frame_type :: rs2_stream
  frame_index :: int
  get_width :: int
  get_height :: int
  get_data :: "nat list"

text \<open>
  The SDK's configuration object \<^verbatim>\<open>rs2::config\<close>: the streams requested, each with
  the arguments of the \<^verbatim>\<open>enable_stream\<close> call that requested it last (kind and index
  only, or width, height, format and frame rate).
\<close>

datatype stream_request =
    any_profile
  | video_request int int rs2_format int

type_synonym config = "stream_index_pair \<rightharpoonup> stream_request"

definition enable_stream :: "config \<Rightarrow> stream_index_pair \<Rightarrow> stream_request \<Rightarrow> config" where
  "enable_stream c s rq = c(s \<mapsto> rq)"

definition disable_stream :: "config \<Rightarrow> stream_index_pair \<Rightarrow> config" where
  "disable_stream c s = c(s := None)"

text \<open>
  What the node does to the pipeline and to its publishers, in program order. Every
  \<open>pipeline_start\<close> of this file installs the same callback, \<^verbatim>\<open>publishTopicsCallback\<close>
  bound to this object. \<open>publish_move\<close> is the publication of a uniquely owned
  message (intra-process communication).
\<close>

record Publisher =
  topic :: string
  depth :: nat

datatype effect =
    pipeline_stop
  | sleep_for_ms nat
  | pipeline_start config
  | publish Publisher message
  | publish_move Publisher message

datatype error =
    out_of_range
  | ParameterAlreadyDeclaredException
  | ParameterTypeException
  | vector_index_out_of_bounds
  | null_publisher
  | cannot_resolve
  | indeterminate_value

subsection \<open>The members of the class and its environment\<close>

record VideoStreamInfo =
  width :: int
  height :: int
  fps :: int

text \<open>
  The tables and defaults of the header \<^verbatim>\<open>rs_base.hpp\<close> (not among the sources) are
  parameters, and so are the answers of the device and of the middleware:
  whether the SDK can resolve a configuration, the profiles it resolves it to, the
  parameter values supplied from outside, and the node's intra-process option.
  The tables are \<^verbatim>\<open>std::map\<close>s read with \<^verbatim>\<open>at\<close>.
\<close>

record env =
  STREAM_NAME :: "rs2_stream \<rightharpoonup> string"
  SAMPLE_TOPIC :: "stream_index_pair \<rightharpoonup> string"
  INFO_TOPIC :: "stream_index_pair \<rightharpoonup> string"
  OPTICAL_FRAME_ID :: "stream_index_pair \<rightharpoonup> string"
  STREAM_FORMAT :: "rs2_stream \<rightharpoonup> rs2_format"
  MSG_ENCODING :: "rs2_stream \<rightharpoonup> string"
  CV_FORMAT :: "rs2_stream \<rightharpoonup> int"
  DEFAULT_IMAGE_RESOLUTION :: "int list"
  FISHEYE_RESOLUTION :: "int list"
  DEFAULT_IMAGE_FPS :: int
  VideoStreamInfo_init :: VideoStreamInfo
  can_resolve :: "config \<Rightarrow> bool"
  resolve :: "config \<Rightarrow> stream_profile list option"
  parameter_overrides :: "string \<rightharpoonup> ParameterValue"
  use_intra_process_comms :: bool

text \<open>
  The members. \<open>enable\<close> and \<open>camera_info\<close> are \<^verbatim>\<open>std::map\<close>s that this file reads
  and writes with \<^verbatim>\<open>operator[]\<close> only, which makes a missing entry with the
  value-initialised value: they are total functions that start at that value.
  \<open>stream_info\<close> and the publisher tables are also filled with \<^verbatim>\<open>insert\<close>, which
  keeps an entry that is there, so they are partial maps. \<open>parameters\<close> are the
  parameters declared on the node, each with its read-only flag, and \<open>effects\<close> is
  the trace.
\<close>

record RealSenseBase =
  cfg :: config
  enable :: "stream_index_pair \<Rightarrow> bool"
  stream_info :: "stream_index_pair \<rightharpoonup> VideoStreamInfo"
  camera_info :: "stream_index_pair \<Rightarrow> CameraInfo"
  image_pub :: "stream_index_pair \<rightharpoonup> Publisher"
  camera_info_pub :: "stream_index_pair \<rightharpoonup> Publisher"
  imu_pub :: "stream_index_pair \<rightharpoonup> Publisher"
  imu_info_pub :: "stream_index_pair \<rightharpoonup> Publisher"
  odom_pub :: "Publisher option"
  parameters :: "string \<rightharpoonup> ParameterValue \<times> bool"
  effects :: "effect list"

text \<open>The object after its constructor: nothing configured, declared or published.\<close>

definition RealSenseBase_init :: RealSenseBase where
  "RealSenseBase_init =
     \<lparr>cfg = Map.empty, enable = (\<lambda>s. False), stream_info = Map.empty,
      camera_info = (\<lambda>s. CameraInfo_init), image_pub = Map.empty,
      camera_info_pub = Map.empty, imu_pub = Map.empty, imu_info_pub = Map.empty,
      odom_pub = None, parameters = Map.empty, effects = []\<rparr>"

subsection \<open>Helpers: sequencing, map access, parameters\<close>

definition and_then :: "error + 'a \<Rightarrow> ('a \<Rightarrow> error + 'b) \<Rightarrow> error + 'b" where
  "and_then m f = (case m of Inl e \<Rightarrow> Inl e | Inr v \<Rightarrow> f v)"

text \<open>\<^verbatim>\<open>std::map::at\<close> throws \<^verbatim>\<open>std::out_of_range\<close> on a missing key.\<close>

definition map_at :: "('a \<rightharpoonup> 'b) \<Rightarrow> 'a \<Rightarrow> error + 'b" where
  "map_at m x = (case m x of None \<Rightarrow> Inl out_of_range | Some v \<Rightarrow> Inr v)"

text \<open>\<^verbatim>\<open>std::map::insert\<close> leaves an entry that is already there.\<close>

definition insert_pair :: "('a \<rightharpoonup> 'b) \<Rightarrow> 'a \<Rightarrow> 'b \<Rightarrow> ('a \<rightharpoonup> 'b)" where
  "insert_pair m x v = (case m x of None \<Rightarrow> m(x \<mapsto> v) | Some u \<Rightarrow> m)"

text \<open>
  \<^verbatim>\<open>stream_info_[stream]\<close>: \<^verbatim>\<open>operator[]\<close> makes a missing entry, value-initialised,
  and yields the entry.
\<close>

definition stream_info_at :: "env \<Rightarrow> RealSenseBase \<Rightarrow> stream_index_pair \<Rightarrow> VideoStreamInfo" where
  "stream_info_at E st s =
     (case stream_info st s of None \<Rightarrow> VideoStreamInfo_init E | Some v \<Rightarrow> v)"

definition touch_stream_info :: "env \<Rightarrow> RealSenseBase \<Rightarrow> stream_index_pair \<Rightarrow> RealSenseBase" where
  "touch_stream_info E st s =
     st\<lparr>stream_info := (stream_info st)(s \<mapsto> stream_info_at E st s)\<rparr>"

text \<open>The decimal digits an output stream writes for an \<^verbatim>\<open>int\<close>.\<close>

fun show_nat :: "nat \<Rightarrow> string" where
  "show_nat n =
     (if n < 10 then [''0123456789'' ! n]
      else show_nat (n div 10) @ [''0123456789'' ! (n mod 10)])"

declare show_nat.simps [simp del]

definition show_int :: "int \<Rightarrow> string" where
  "show_int i = (if i < 0 then CHR ''-'' # show_nat (nat (- i)) else show_nat (nat i))"

definition param_name :: "string \<Rightarrow> stream_index_pair \<Rightarrow> string \<Rightarrow> string" where
  "param_name name s suffix = name @ show_int (snd s) @ suffix"

text \<open>
  \<^verbatim>\<open>node_.declare_parameter(name, default, descriptor)\<close>: throws when the name is
  declared already; the value is the one supplied from outside for this name, or
  else the default. The typed forms throw when the value has another type.
\<close>

definition declare_parameter ::
  "env \<Rightarrow> RealSenseBase \<Rightarrow> string \<Rightarrow> ParameterValue \<Rightarrow> bool \<Rightarrow> error + (ParameterValue \<times> RealSenseBase)" where
  "declare_parameter E st name dflt read_only =
     (case parameters st name of
        Some u \<Rightarrow> Inl ParameterAlreadyDeclaredException
      | None \<Rightarrow>
          (let v = (case parameter_overrides E name of None \<Rightarrow> dflt | Some w \<Rightarrow> w)
           in Inr (v, st\<lparr>parameters := (parameters st)(name \<mapsto> (v, read_only))\<rparr>)))"

definition declare_bool ::
  "env \<Rightarrow> RealSenseBase \<Rightarrow> string \<Rightarrow> bool \<Rightarrow> error + (bool \<times> RealSenseBase)" where
  "declare_bool E st name dflt =
     and_then (declare_parameter E st name (PARAMETER_BOOL dflt) False) (\<lambda>(v, st').
       case v of PARAMETER_BOOL b \<Rightarrow> Inr (b, st') | _ \<Rightarrow> Inl ParameterTypeException)"

definition declare_int ::
  "env \<Rightarrow> RealSenseBase \<Rightarrow> string \<Rightarrow> int \<Rightarrow> bool \<Rightarrow> error + (int \<times> RealSenseBase)" where
  "declare_int E st name dflt read_only =
     and_then (declare_parameter E st name (PARAMETER_INTEGER dflt) read_only) (\<lambda>(v, st').
       case v of PARAMETER_INTEGER i \<Rightarrow> Inr (static_cast_int i, st')
       | _ \<Rightarrow> Inl ParameterTypeException)"

definition declare_integer_array ::
  "env \<Rightarrow> RealSenseBase \<Rightarrow> string \<Rightarrow> int list \<Rightarrow> bool \<Rightarrow> error + (int list \<times> RealSenseBase)" where
  "declare_integer_array E st name dflt read_only =
     and_then (declare_parameter E st name (PARAMETER_INTEGER_ARRAY dflt) read_only) (\<lambda>(v, st').
       case v of PARAMETER_INTEGER_ARRAY xs \<Rightarrow> Inr (xs, st')
       | _ \<Rightarrow> Inl ParameterTypeException)"

subsection \<open>setupStream\<close>

text \<open>\<^verbatim>\<open>node_.create_publisher<T>(topic, rclcpp::QoS(1))\<close>.\<close>

definition create_publisher :: "string \<Rightarrow> Publisher" where
  "create_publisher t = \<lparr>topic = t, depth = 1\<rparr>"

text \<open>
  The parameters of a video stream (lines 70 to 88). \<open>res\<close> starts empty and \<open>fps\<close>
  uninitialised (\<open>None\<close>); only the two groups of named streams assign them.
\<close>

definition declare_video_parameters ::
  "env \<Rightarrow> RealSenseBase \<Rightarrow> string \<Rightarrow> stream_index_pair \<Rightarrow>
     error + (int list \<times> int option \<times> RealSenseBase)" where
  "declare_video_parameters E st name stream =
     (if stream = COLOR \<or> stream = DEPTH \<or> stream = INFRA1 \<or> stream = INFRA2 then
        and_then (declare_integer_array E st (param_name name stream ''.resolution'')
                    (DEFAULT_IMAGE_RESOLUTION E) False) (\<lambda>(res, st1).
        and_then (declare_int E st1 (param_name name stream ''.fps'')
                    (DEFAULT_IMAGE_FPS E) False) (\<lambda>(f, st2).
          Inr (res, Some f, st2)))
      else if stream = FISHEYE1 \<or> stream = FISHEYE2 then
        and_then (declare_integer_array E st (param_name name stream ''.resolution'')
                    (FISHEYE_RESOLUTION E) True) (\<lambda>(res, st1).
        and_then (declare_int E st1 (param_name name stream ''.fps'')
                    (DEFAULT_IMAGE_FPS E) True) (\<lambda>(f, st2).
          Inr (res, Some f, st2)))
      else Inr ([], None, st))"

text \<open>
  Line 90 reads \<open>res[0]\<close> and \<open>res[1]\<close> with the unchecked \<^verbatim>\<open>operator[]\<close> of
  \<^verbatim>\<open>std::vector\<close>: with fewer than two elements the read is outside the vector.
  It also reads \<open>fps\<close>, which is indeterminate if no branch assigned it; that
  happens only together with an empty \<open>res\<close>.
\<close>

definition make_info :: "int list \<Rightarrow> int option \<Rightarrow> error + VideoStreamInfo" where
  "make_info res f =
     (if length res < 2 then Inl vector_index_out_of_bounds
      else case f of
        None \<Rightarrow> Inl indeterminate_value
      | Some v \<Rightarrow>
          Inr \<lparr>width = static_cast_int (res ! 0), height = static_cast_int (res ! 1), fps = v\<rparr>)"

definition setupStream :: "env \<Rightarrow> RealSenseBase \<Rightarrow> stream_index_pair \<Rightarrow> error + RealSenseBase" where
  "setupStream E st stream =
     and_then (map_at (STREAM_NAME E) (fst stream)) (\<lambda>name.
     and_then (declare_bool E st (param_name name stream ''.enabled'') False) (\<lambda>(enabled, st1).
       if stream = ACCEL \<or> stream = GYRO then
         and_then (map_at (SAMPLE_TOPIC E) stream) (\<lambda>sample.
         and_then (map_at (INFO_TOPIC E) stream) (\<lambda>info_topic.
           let st2 = st1\<lparr>imu_pub := insert_pair (imu_pub st1) stream (create_publisher sample),
                          imu_info_pub :=
                            insert_pair (imu_info_pub st1) stream (create_publisher info_topic)\<rparr>
           in Inr (if enabled
                   then st2\<lparr>enable := (enable st2)(stream := True),
                            cfg := enable_stream (cfg st2) stream any_profile\<rparr>
                   else st2)))
       else if stream = POSE then
         and_then (map_at (SAMPLE_TOPIC E) stream) (\<lambda>sample.
           let st2 = st1\<lparr>odom_pub := Some (create_publisher sample)\<rparr>
           in Inr (if enabled
                   then st2\<lparr>enable := (enable st2)(stream := True),
                            cfg := enable_stream (cfg st2) stream any_profile\<rparr>
                   else st2))
       else
         and_then (declare_video_parameters E st1 name stream) (\<lambda>(res, f, st2).
         and_then (make_info res f) (\<lambda>info.
         and_then (map_at (SAMPLE_TOPIC E) stream) (\<lambda>sample.
         and_then (map_at (INFO_TOPIC E) stream) (\<lambda>info_topic.
           let st3 = st2\<lparr>stream_info := insert_pair (stream_info st2) stream info,
                          image_pub := insert_pair (image_pub st2) stream (create_publisher sample),
                          camera_info_pub :=
                            insert_pair (camera_info_pub st2) stream (create_publisher info_topic)\<rparr>
           in if enabled
              then and_then (map_at (STREAM_FORMAT E) (fst stream)) (\<lambda>fmt.
                     Inr (st3\<lparr>enable := (enable st3)(stream := True),
                              cfg := enable_stream (cfg st3) stream
                                (video_request (width info) (height info) fmt (fps info))\<rparr>))
              else Inr st3))))))"

subsection \<open>updateVideoStreamCalibData, startPipeline, publishImageTopic\<close>

text \<open>\<^verbatim>\<open>d.resize(n)\<close>: cut, or fill with zeros.\<close>

definition resize :: "real list \<Rightarrow> nat \<Rightarrow> real list" where
  "resize xs n = take n xs @ replicate (n - length xs) 0"

text \<open>
  Lines 144 to 183: the assignments made for every stream. \<open>k\<close>, \<open>r\<close> and \<open>p\<close> have
  the fixed sizes 9, 9 and 12, so \<^verbatim>\<open>at\<close> with these indices does not throw.
\<close>

definition fill_calib :: "string \<Rightarrow> rs2_intrinsics \<Rightarrow> CameraInfo \<Rightarrow> CameraInfo" where
  "fill_calib fid intrinsic ci =
     (let ci1 = ci\<lparr>cam_width := static_cast_uint32 (intr_width intrinsic),
                    cam_height := static_cast_uint32 (intr_height intrinsic),
                    header := (header ci)\<lparr>frame_id := fid\<rparr>\<rparr>;
          ci2 = ci1\<lparr>k := (k ci1)[0 := fx intrinsic, 2 := ppx intrinsic, 4 := fy intrinsic,
                                  5 := ppy intrinsic, 8 := 1]\<rparr>;
          ci3 = ci2\<lparr>p := (p ci2)[0 := k ci2 ! 0, 1 := 0, 2 := k ci2 ! 2, 3 := 0,
                                  4 := 0, 5 := k ci2 ! 4, 6 := k ci2 ! 5, 7 := 0,
                                  8 := 0, 9 := 0, 10 := 1, 11 := 0]\<rparr>;
          ci4 = ci3\<lparr>distortion_model := ''plumb_bob''\<rparr>;
          ci5 = ci4\<lparr>r := (r ci4)[0 := 1, 1 := 0, 2 := 0, 3 := 0, 4 := 1, 5 := 0,
                                  6 := 0, 7 := 0, 8 := 1]\<rparr>
      in ci5\<lparr>d := fold (\<lambda>i ds. ds[i := coeffs intrinsic ! i]) [0..<5] (resize (d ci5) 5)\<rparr>)"

definition updateVideoStreamCalibData ::
  "env \<Rightarrow> RealSenseBase \<Rightarrow> video_stream_profile \<Rightarrow> error + RealSenseBase" where
  "updateVideoStreamCalibData E st video_profile =
     (let type_index = (stream_type video_profile, stream_index video_profile);
          intrinsic = get_intrinsics video_profile
      in and_then (map_at (OPTICAL_FRAME_ID E) type_index) (\<lambda>fid.
           let ci = fill_calib fid intrinsic (camera_info st type_index);
               ci' = (if type_index = DEPTH \<and> enable st DEPTH \<and> enable st COLOR
                      then ci\<lparr>p := (p ci)[3 := 0, 7 := 0]\<rparr> else ci)
           in Inr (st\<lparr>camera_info := (camera_info st)(type_index := ci')\<rparr>)))"

fun update_profiles :: "env \<Rightarrow> RealSenseBase \<Rightarrow> stream_profile list \<Rightarrow> error + RealSenseBase" where
  "update_profiles E st [] = Inr st"
| "update_profiles E st (as_video_stream_profile v # rest) =
     and_then (updateVideoStreamCalibData E st v) (\<lambda>st'. update_profiles E st' rest)"
| "update_profiles E st (other_profile ty i # rest) = update_profiles E st rest"

definition startPipeline :: "env \<Rightarrow> RealSenseBase \<Rightarrow> error + RealSenseBase" where
  "startPipeline E st =
     (case resolve E (cfg st) of
        None \<Rightarrow> Inl cannot_resolve
      | Some active_profiles \<Rightarrow>
          and_then (update_profiles E st active_profiles) (\<lambda>st1.
            Inr (st1\<lparr>effects := effects st1 @ [pipeline_start (cfg st1)]\<rparr>)))"

text \<open>
  \<^verbatim>\<open>image_pub_[type_index]->publish(...)\<close>: \<^verbatim>\<open>operator[]\<close> on a missing entry makes
  a null pointer, and the call through it is undefined.
\<close>

definition publishImageTopic ::
  "env \<Rightarrow> RealSenseBase \<Rightarrow> video_frame \<Rightarrow> Time \<Rightarrow> error + RealSenseBase" where
  "publishImageTopic E st frame t =
     (let type_index = (frame_type frame, frame_index frame)
      in and_then (map_at (CV_FORMAT E) (frame_type frame)) (\<lambda>cv_format.
         and_then (map_at (MSG_ENCODING E) (frame_type frame)) (\<lambda>enc.
         and_then (map_at (OPTICAL_FRAME_ID E) type_index) (\<lambda>fid.
         and_then (case image_pub st type_index of
                     None \<Rightarrow> Inl null_publisher | Some ip \<Rightarrow> Inr ip) (\<lambda>ip.
           let img = \<lparr>img_header = \<lparr>stamp = t, frame_id = fid\<rparr>,
                      img_height = get_height frame, img_width = get_width frame,
                      encoding = enc, data = get_data frame\<rparr>;
               st1 = st\<lparr>effects := effects st @
                         [if use_intra_process_comms E then publish_move ip (ImageMsg img)
                          else publish ip (ImageMsg img)]\<rparr>;
               ci = (camera_info st1 type_index)
                      \<lparr>header := (header (camera_info st1 type_index))\<lparr>stamp := t\<rparr>\<rparr>;
               st2 = st1\<lparr>camera_info := (camera_info st1)(type_index := ci)\<rparr>
           in case camera_info_pub st2 type_index of
                None \<Rightarrow> Inl null_publisher
              | Some cp \<Rightarrow>
                  Inr (st2\<lparr>effects := effects st2 @ [publish cp (CameraInfoMsg ci)]\<rparr>))))))"

subsection \<open>The reconfiguration handlers\<close>

definition accepted :: Result where
  "accepted = \<lparr>successful = True, reason = []\<rparr>"

definition rejected :: "string \<Rightarrow> Result" where
  "rejected why = \<lparr>successful = False, reason = why\<rparr>"

text \<open>
  The log lines of \<open>toggleStream\<close> read \<^verbatim>\<open>STREAM_NAME.at(stream.first)\<close> after the
  members are updated, so a missing name throws there. The log text itself is not
  part of the model.
\<close>

definition toggleStream ::
  "env \<Rightarrow> RealSenseBase \<Rightarrow> stream_index_pair \<Rightarrow> ParameterValue \<Rightarrow> error + (Result \<times> RealSenseBase)" where
  "toggleStream E st stream param =
     (case param of
        PARAMETER_BOOL b \<Rightarrow>
          if b = True \<and> enable st stream = False then
            and_then
              (if stream = ACCEL \<or> stream = GYRO \<or> stream = POSE then
                 Inr (st\<lparr>cfg := enable_stream (cfg st) stream any_profile\<rparr>)
               else
                 and_then (map_at (STREAM_FORMAT E) (fst stream)) (\<lambda>fmt.
                   let st0 = touch_stream_info E st stream;
                       info = stream_info_at E st0 stream
                   in Inr (st0\<lparr>cfg := enable_stream (cfg st0) stream
                                 (video_request (width info) (height info) fmt (fps info))\<rparr>)))
              (\<lambda>st1.
                 let st2 = st1\<lparr>effects := effects st1 @
                                 [pipeline_stop, sleep_for_ms 200, pipeline_start (cfg st1)],
                               enable := (enable st1)(stream := True)\<rparr>
                 in and_then (map_at (STREAM_NAME E) (fst stream)) (\<lambda>name.
                      Inr (accepted, st2)))
          else if b = False \<and> enable st stream = True then
            (let st1 = st\<lparr>cfg := disable_stream (cfg st) stream,
                           enable := (enable st)(stream := False)\<rparr>
             in and_then (map_at (STREAM_NAME E) (fst stream)) (\<lambda>name.
                  Inr (accepted, st1)))
          else
            Inr (rejected ''Parameter is equal to the previous value. Do nothing.'', st)
      | _ \<Rightarrow> Inr (rejected ''Type should be boolean.'', st))"

text \<open>
  Line 281 reads \<open>res[0]\<close> and \<open>res[1]\<close> of the parameter's array unchecked, and
  passes them for \<^verbatim>\<open>int\<close> arguments. The order in which the arguments of the
  call are evaluated is not fixed by C++; each order ends in the same error or
  in the same configuration.
\<close>

definition changeResolution ::
  "env \<Rightarrow> RealSenseBase \<Rightarrow> stream_index_pair \<Rightarrow> ParameterValue \<Rightarrow> error + (Result \<times> RealSenseBase)" where
  "changeResolution E st stream param =
     (case param of
        PARAMETER_INTEGER_ARRAY res \<Rightarrow>
          if length res < 2 then Inl vector_index_out_of_bounds
          else
            and_then (map_at (STREAM_FORMAT E) (fst stream)) (\<lambda>fmt.
              let st0 = touch_stream_info E st stream;
                  st1 = st0\<lparr>cfg := enable_stream (cfg st0) stream
                               (video_request (static_cast_int (res ! 0)) (static_cast_int (res ! 1))
                                  fmt (fps (stream_info_at E st0 stream)))\<rparr>
              in if can_resolve E (cfg st1) then
                   (let st2 = (if enable st1 stream = True
                               then st1\<lparr>effects := effects st1 @
                                          [pipeline_stop, pipeline_start (cfg st1)]\<rparr>
                               else st1);
                        st3 = touch_stream_info E st2 stream
                    in Inr (accepted,
                         st3\<lparr>stream_info := (stream_info st3)(stream \<mapsto>
                               (stream_info_at E st3 stream)
                                 \<lparr>width := static_cast_int (res ! 0),
                                  height := static_cast_int (res ! 1)\<rparr>)\<rparr>))
                 else Inr (rejected ''Unsupported resolution.'', st1))
      | _ \<Rightarrow> Inr (rejected ''Type should be integer array.'', st))"

definition changeFPS ::
  "env \<Rightarrow> RealSenseBase \<Rightarrow> stream_index_pair \<Rightarrow> ParameterValue \<Rightarrow> error + (Result \<times> RealSenseBase)" where
  "changeFPS E st stream param =
     (case param of
        PARAMETER_INTEGER v \<Rightarrow>
          (let f = static_cast_int v
           in and_then (map_at (STREAM_FORMAT E) (fst stream)) (\<lambda>fmt.
                let st0 = touch_stream_info E st stream;
                    info = stream_info_at E st0 stream;
                    st1 = st0\<lparr>cfg := enable_stream (cfg st0) stream
                                 (video_request (width info) (height info) fmt f)\<rparr>
                in if can_resolve E (cfg st1) then
                     (let st2 = (if enable st1 stream = True
                                 then st1\<lparr>effects := effects st1 @
                                            [pipeline_stop, pipeline_start (cfg st1)]\<rparr>
                                 else st1);
                          st3 = touch_stream_info E st2 stream
                      in Inr (accepted,
                           st3\<lparr>stream_info := (stream_info st3)(stream \<mapsto>
                                 (stream_info_at E st3 stream)\<lparr>fps := f\<rparr>)\<rparr>))
                   else Inr (rejected ''Unsupported configuration.'', st1)))
      | _ \<Rightarrow> Inr (rejected ''Type should be integer.'', st))"

subsection \<open>Sequences of calls\<close>

datatype call =
    SetupStream stream_index_pair
  | StartPipeline
  | UpdateVideoStreamCalibData video_stream_profile
  | PublishImageTopic video_frame Time
  | ToggleStream stream_index_pair ParameterValue
  | ChangeResolution stream_index_pair ParameterValue
  | ChangeFPS stream_index_pair ParameterValue

fun step :: "env \<Rightarrow> RealSenseBase \<Rightarrow> call \<Rightarrow> error + RealSenseBase" where
  "step E st (SetupStream s) = setupStream E st s"
| "step E st StartPipeline = startPipeline E st"
| "step E st (UpdateVideoStreamCalibData v) = updateVideoStreamCalibData E st v"
| "step E st (PublishImageTopic frame t) = publishImageTopic E st frame t"
| "step E st (ToggleStream s param) = and_then (toggleStream E st s param) (\<lambda>(res, st'). Inr st')"
| "step E st (ChangeResolution s param) =
     and_then (changeResolution E st s param) (\<lambda>(res, st'). Inr st')"
| "step E st (ChangeFPS s param) = and_then (changeFPS E st s param) (\<lambda>(res, st'). Inr st')"

text \<open>A sequence of calls on the object; an exception ends it.\<close>

fun run :: "env \<Rightarrow> RealSenseBase \<Rightarrow> call list \<Rightarrow> error + RealSenseBase" where
  "run E st [] = Inr st"
| "run E st (c # cs) = and_then (step E st c) (\<lambda>st'. run E st' cs)"

subsection \<open>A concrete device\<close>

text \<open>
  One environment, on which the general theorems are instantiated and the concrete
  runs are evaluated: tables with entries for the COLOR and DEPTH streams (for
  COLOR the topic, the frame name and the default 640 by 480 at 30 frames per second
  of the spec's bring-up scenario; the other entries are chosen), a device that
  resolves 640 by 480 and 1280 by 720 at 15 or 30 frames per second, and a launch
  that sets \<open>Color0.enabled\<close>.
\<close>

definition supported :: "stream_request option \<Rightarrow> bool" where
  "supported rq =
     (case rq of
        Some (video_request w h fmt f) \<Rightarrow>
          ((w = 640 \<and> h = 480) \<or> (w = 1280 \<and> h = 720)) \<and> (f = 15 \<or> f = 30)
      | _ \<Rightarrow> True)"

definition example_env :: env where
  "example_env =
     \<lparr>STREAM_NAME = [RS2_STREAM_COLOR \<mapsto> ''Color'', RS2_STREAM_DEPTH \<mapsto> ''Depth''],
      SAMPLE_TOPIC = [COLOR \<mapsto> ''/camera/color/image_raw'',
                      DEPTH \<mapsto> ''/camera/depth/image_rect_raw''],
      INFO_TOPIC = [COLOR \<mapsto> ''/camera/color/camera_info'',
                    DEPTH \<mapsto> ''/camera/depth/camera_info''],
      OPTICAL_FRAME_ID = [COLOR \<mapsto> ''camera_color_optical_frame'',
                          DEPTH \<mapsto> ''camera_depth_optical_frame''],
      STREAM_FORMAT = [RS2_STREAM_COLOR \<mapsto> 5, RS2_STREAM_DEPTH \<mapsto> 1],
      MSG_ENCODING = [RS2_STREAM_COLOR \<mapsto> ''rgb8'', RS2_STREAM_DEPTH \<mapsto> ''16UC1''],
      CV_FORMAT = [RS2_STREAM_COLOR \<mapsto> 16, RS2_STREAM_DEPTH \<mapsto> 2],
      DEFAULT_IMAGE_RESOLUTION = [640, 480],
      FISHEYE_RESOLUTION = [848, 800],
      DEFAULT_IMAGE_FPS = 30,
      VideoStreamInfo_init = \<lparr>width = 0, height = 0, fps = 0\<rparr>,
      can_resolve = (\<lambda>c. supported (c COLOR) \<and> supported (c DEPTH)),
      resolve = (\<lambda>c. None),
      parameter_overrides = [''Color0.enabled'' \<mapsto> PARAMETER_BOOL True],
      use_intra_process_comms = False\<rparr>"

text \<open>The object after \<open>setupStream(COLOR)\<close> on that device, when the call returns.\<close>

definition color_enabled :: RealSenseBase where
  "color_enabled =
     (case setupStream example_env RealSenseBase_init COLOR of
        Inr st \<Rightarrow> st | Inl e \<Rightarrow> RealSenseBase_init)"

subsection \<open>Predicates of the statements\<close>

text \<open>
  The part of a camera-info message that \<open>updateVideoStreamCalibData\<close> relies on and
  never writes: the sizes of the three arrays, and the four entries of \<open>k\<close> off
  the pattern, which are zero in a value-initialised message.
\<close>

definition calib_base :: "CameraInfo \<Rightarrow> bool" where
  "calib_base ci =
     (length (k ci) = 9 \<and> length (r ci) = 9 \<and> length (p ci) = 12 \<and>
      k ci ! 1 = 0 \<and> k ci ! 3 = 0 \<and> k ci ! 6 = 0 \<and> k ci ! 7 = 0)"

text \<open>
  The calls that put a proposal for the stream \<open>s\<close> into the SDK configuration:
  \<open>changeResolution\<close> and \<open>changeFPS\<close> for \<open>s\<close> with a parameter of the right type.
\<close>

fun proposes :: "stream_index_pair \<Rightarrow> call \<Rightarrow> bool" where
  "proposes s (ChangeResolution s' (PARAMETER_INTEGER_ARRAY xs)) = (s' = s)"
| "proposes s (ChangeFPS s' (PARAMETER_INTEGER v)) = (s' = s)"
| "proposes s c = False"

text \<open>
  Whether, at the end of a sequence of calls, a proposal for \<open>s\<close> is pending: one
  of these calls was made for \<open>s\<close> while \<open>s\<close> was disabled, and \<open>s\<close> has not been
  enabled since. \<open>b\<close> is the answer for the calls made so far.
\<close>

fun pending :: "env \<Rightarrow> RealSenseBase \<Rightarrow> stream_index_pair \<Rightarrow> bool \<Rightarrow> call list \<Rightarrow> bool" where
  "pending E st s b [] = b"
| "pending E st s b (c # cs) =
     (case step E st c of
        Inl e \<Rightarrow> b
      | Inr st' \<Rightarrow> pending E st' s (\<not> enable st' s \<and> (b \<or> proposes s c)) cs)"

text \<open>The nine streams that \<open>setupStream\<close> names.\<close>

definition catalogued :: "stream_index_pair \<Rightarrow> bool" where
  "catalogued s =
     (s = ACCEL \<or> s = GYRO \<or> s = POSE \<or> s = COLOR \<or> s = DEPTH \<or> s = INFRA1 \<or>
      s = INFRA2 \<or> s = FISHEYE1 \<or> s = FISHEYE2)"

text \<open>A COLOR frame and a DEPTH profile of the concrete device.\<close>

definition color_frame :: video_frame where
  "color_frame =
     \<lparr>frame_type = RS2_STREAM_COLOR, frame_index = 0, get_width = 640, get_height = 480,
      get_data = []\<rparr>"

definition depth_profile :: video_stream_profile where
  "depth_profile =
     \<lparr>stream_type = RS2_STREAM_DEPTH, stream_index = 0,
      get_intrinsics =
        \<lparr>intr_width = 640, intr_height = 480, ppx = 320, ppy = 240, fx = 380, fy = 381,
         coeffs = [1, 2, 3, 4, 5]\<rparr>\<rparr>"

text \<open>The concrete device, launched with a one-element \<open>Color0.resolution\<close>.\<close>

definition short_resolution_env :: env where
  "short_resolution_env =
     example_env\<lparr>parameter_overrides :=
       [''Color0.enabled'' \<mapsto> PARAMETER_BOOL True,
        ''Color0.resolution'' \<mapsto> PARAMETER_INTEGER_ARRAY [640]]\<rparr>"

text \<open>
  The object after \<open>setupStream(DEPTH)\<close>, which leaves DEPTH disabled on the concrete
  device, and an accepted \<open>changeResolution(DEPTH, [1280, 720])\<close>.
\<close>

definition depth_reconfigured :: RealSenseBase where
  "depth_reconfigured =
     \<lparr>cfg = [DEPTH \<mapsto> video_request 1280 720 1 30],
      enable = (\<lambda>s. False),
      stream_info = [DEPTH \<mapsto> \<lparr>width = 1280, height = 720, fps = 30\<rparr>],
      camera_info = (\<lambda>s. CameraInfo_init),
      image_pub = [DEPTH \<mapsto> \<lparr>topic = ''/camera/depth/image_rect_raw'', depth = 1\<rparr>],
      camera_info_pub = [DEPTH \<mapsto> \<lparr>topic = ''/camera/depth/camera_info'', depth = 1\<rparr>],
      imu_pub = Map.empty, imu_info_pub = Map.empty, odom_pub = None,
      parameters = [''Depth0.enabled'' \<mapsto> (PARAMETER_BOOL False, False),
                    ''Depth0.resolution'' \<mapsto> (PARAMETER_INTEGER_ARRAY [640, 480], False),
                    ''Depth0.fps'' \<mapsto> (PARAMETER_INTEGER 30, False)],
      effects = []\<rparr>"

section \<open>Evaluation on the concrete device\<close>

lemmas stream_defs = COLOR_def DEPTH_def INFRA1_def INFRA2_def FISHEYE1_def FISHEYE2_def
  ACCEL_def GYRO_def POSE_def

lemmas eval_defs = setupStream_def example_env_def RealSenseBase_init_def map_at_def
  and_then_def declare_bool_def declare_int_def declare_integer_array_def
  declare_parameter_def param_name_def show_int_def show_nat.simps
  declare_video_parameters_def make_info_def insert_pair_def enable_stream_def
  disable_stream_def create_publisher_def static_cast_int_def stream_info_at_def
  touch_stream_info_def supported_def accepted_def rejected_def Let_def

lemma color_enabled_eq:
  "color_enabled =
     \<lparr>cfg = [COLOR \<mapsto> video_request 640 480 5 30],
      enable = (\<lambda>s. False)(COLOR := True),
      stream_info = [COLOR \<mapsto> \<lparr>width = 640, height = 480, fps = 30\<rparr>],
      camera_info = (\<lambda>s. CameraInfo_init),
      image_pub = [COLOR \<mapsto> \<lparr>topic = ''/camera/color/image_raw'', depth = 1\<rparr>],
      camera_info_pub = [COLOR \<mapsto> \<lparr>topic = ''/camera/color/camera_info'', depth = 1\<rparr>],
      imu_pub = Map.empty, imu_info_pub = Map.empty, odom_pub = None,
      parameters = [''Color0.enabled'' \<mapsto> (PARAMETER_BOOL True, False),
                    ''Color0.resolution'' \<mapsto> (PARAMETER_INTEGER_ARRAY [640, 480], False),
                    ''Color0.fps'' \<mapsto> (PARAMETER_INTEGER 30, False)],
      effects = []\<rparr>"
  by (simp add: color_enabled_def eval_defs stream_defs)

section \<open>Rejected requests\<close>

text \<open>
  C8. A parameter of the wrong type is rejected before anything is changed:
  \<open>toggleStream\<close> answers \<open>successful = false\<close> with the reason
  "Type should be boolean.", \<open>changeResolution\<close> with "Type should be integer array."
  and \<open>changeFPS\<close> with "Type should be integer."; the object returned is the object
  given (enable map, stream info, SDK configuration and trace included).
\<close>

theorem wrong_type_rejected:
  "((\<forall>b. param \<noteq> PARAMETER_BOOL b) \<longrightarrow>
      toggleStream E st s param =
        Inr (\<lparr>successful = False, reason = ''Type should be boolean.''\<rparr>, st)) \<and>
   ((\<forall>xs. param \<noteq> PARAMETER_INTEGER_ARRAY xs) \<longrightarrow>
      changeResolution E st s param =
        Inr (\<lparr>successful = False, reason = ''Type should be integer array.''\<rparr>, st)) \<and>
   ((\<forall>v. param \<noteq> PARAMETER_INTEGER v) \<longrightarrow>
      changeFPS E st s param =
        Inr (\<lparr>successful = False, reason = ''Type should be integer.''\<rparr>, st))"
proof (intro conjI impI)
  assume "\<forall>b. param \<noteq> PARAMETER_BOOL b"
  then show "toggleStream E st s param =
      Inr (\<lparr>successful = False, reason = ''Type should be boolean.''\<rparr>, st)"
    by (cases param) (auto simp: toggleStream_def rejected_def)
next
  assume "\<forall>xs. param \<noteq> PARAMETER_INTEGER_ARRAY xs"
  then show "changeResolution E st s param =
      Inr (\<lparr>successful = False, reason = ''Type should be integer array.''\<rparr>, st)"
    by (cases param) (auto simp: changeResolution_def rejected_def)
next
  assume "\<forall>v. param \<noteq> PARAMETER_INTEGER v"
  then show "changeFPS E st s param =
      Inr (\<lparr>successful = False, reason = ''Type should be integer.''\<rparr>, st)"
    by (cases param) (auto simp: changeFPS_def rejected_def)
qed

theorem wrong_type_rejected_witness:
  "toggleStream example_env color_enabled COLOR (PARAMETER_STRING ''on'') =
     Inr (\<lparr>successful = False, reason = ''Type should be boolean.''\<rparr>, color_enabled) \<and>
   changeResolution example_env color_enabled COLOR (PARAMETER_STRING ''on'') =
     Inr (\<lparr>successful = False, reason = ''Type should be integer array.''\<rparr>, color_enabled) \<and>
   changeFPS example_env color_enabled COLOR (PARAMETER_STRING ''on'') =
     Inr (\<lparr>successful = False, reason = ''Type should be integer.''\<rparr>, color_enabled)"
  using wrong_type_rejected [of "PARAMETER_STRING ''on''" example_env color_enabled COLOR]
  by simp

text \<open>
  C7. \<open>toggleStream(s, v)\<close> with \<open>v\<close> equal to the current enable state of \<open>s\<close>
  answers \<open>successful = false\<close> with the reason "Parameter is equal to the previous
  value. Do nothing." and returns the object unchanged: enable map, SDK
  configuration and pipeline trace are the ones given.
\<close>

theorem toggle_same_value_rejected:
  "v = enable st s \<Longrightarrow>
   toggleStream E st s (PARAMETER_BOOL v) =
     Inr (\<lparr>successful = False,
          reason = ''Parameter is equal to the previous value. Do nothing.''\<rparr>, st)"
  by (simp add: toggleStream_def rejected_def)

theorem toggle_same_value_rejected_witness:
  "toggleStream example_env color_enabled COLOR (PARAMETER_BOOL True) =
     Inr (\<lparr>successful = False,
          reason = ''Parameter is equal to the previous value. Do nothing.''\<rparr>, color_enabled) \<and>
   toggleStream example_env color_enabled DEPTH (PARAMETER_BOOL False) =
     Inr (\<lparr>successful = False,
          reason = ''Parameter is equal to the previous value. Do nothing.''\<rparr>, color_enabled)"
proof -
  have c: "True = enable color_enabled COLOR"
    by (simp add: color_enabled_eq)
  have dd: "False = enable color_enabled DEPTH"
    by (simp add: color_enabled_eq stream_defs)
  show ?thesis
    using toggle_same_value_rejected [OF c, of example_env]
      toggle_same_value_rejected [OF dd, of example_env] by simp
qed

section \<open>Changing the resolution and the frame rate\<close>

lemma static_cast_int_id: "- (2 ^ 31) \<le> x \<Longrightarrow> x < 2 ^ 31 \<Longrightarrow> static_cast_int x = x"
  by (simp add: static_cast_int_def)

lemma stream_info_at_update [simp]:
  "stream_info_at E (st\<lparr>stream_info := (stream_info st)(s \<mapsto> v)\<rparr>) s' =
     (if s' = s then v else stream_info_at E st s')"
  by (simp add: stream_info_at_def)

lemma stream_info_at_touch [simp]:
  "stream_info_at E (touch_stream_info E st s) = stream_info_at E st"
  by (rule ext) (simp add: stream_info_at_def touch_stream_info_def split: option.splits)

lemma touch_fields [simp]:
  "cfg (touch_stream_info E st s) = cfg st"
  "enable (touch_stream_info E st s) = enable st"
  "effects (touch_stream_info E st s) = effects st"
  "camera_info (touch_stream_info E st s) = camera_info st"
  by (simp_all add: touch_stream_info_def)

lemma stream_info_at_cfg [simp]: "stream_info_at E (st\<lparr>cfg := c\<rparr>) = stream_info_at E st"
  by (rule ext) (simp add: stream_info_at_def)

lemma stream_info_at_effects [simp]: "stream_info_at E (st\<lparr>effects := c\<rparr>) = stream_info_at E st"
  by (rule ext) (simp add: stream_info_at_def)

lemma changeResolution_wide:
  "changeResolution example_env color_enabled COLOR (PARAMETER_INTEGER_ARRAY [4294967936, 480]) =
     Inr (accepted, color_enabled\<lparr>effects := [pipeline_stop, pipeline_start (cfg color_enabled)]\<rparr>)"
  by (simp add: changeResolution_def color_enabled_eq eval_defs stream_defs)

lemma changeResolution_720:
  "changeResolution example_env color_enabled COLOR (PARAMETER_INTEGER_ARRAY [1280, 720]) =
     Inr (accepted,
       color_enabled\<lparr>cfg := [COLOR \<mapsto> video_request 1280 720 5 30],
         stream_info := [COLOR \<mapsto> \<lparr>width = 1280, height = 720, fps = 30\<rparr>],
         effects := [pipeline_stop, pipeline_start [COLOR \<mapsto> video_request 1280 720 5 30]]\<rparr>)"
  by (simp add: changeResolution_def color_enabled_eq eval_defs stream_defs)

lemma changeResolution_huge:
  "changeResolution example_env color_enabled COLOR (PARAMETER_INTEGER_ARRAY [99999, 99999]) =
     Inr (rejected ''Unsupported resolution.'',
       color_enabled\<lparr>cfg := [COLOR \<mapsto> video_request 99999 99999 5 30]\<rparr>)"
  by (simp add: changeResolution_def color_enabled_eq eval_defs stream_defs)

lemma changeFPS_7:
  "changeFPS example_env color_enabled COLOR (PARAMETER_INTEGER 7) =
     Inr (rejected ''Unsupported configuration.'',
       color_enabled\<lparr>cfg := [COLOR \<mapsto> video_request 640 480 5 7]\<rparr>)"
  by (simp add: changeFPS_def color_enabled_eq eval_defs stream_defs)

text \<open>
  C4, as the code has it. After \<open>changeResolution(s, [w, h])\<close> returns
  \<open>successful = true\<close>, the width and height recorded for \<open>s\<close> are \<open>w\<close> and \<open>h\<close>
  converted to C++ \<open>int\<close> (they are \<open>w\<close> and \<open>h\<close> whenever these fit in 32 bits),
  whether or not \<open>s\<close> was enabled; the pipeline is stopped and started again if
  \<open>s\<close> was enabled at the call, and is not touched otherwise.
\<close>

theorem changeResolution_commits:
  assumes "changeResolution E st s (PARAMETER_INTEGER_ARRAY (w # h # rest)) = Inr (res, st')"
    and "successful res"
  shows "width (stream_info_at E st' s) = static_cast_int w \<and>
         height (stream_info_at E st' s) = static_cast_int h \<and>
         (- (2 ^ 31) \<le> w \<and> w < 2 ^ 31 \<longrightarrow> width (stream_info_at E st' s) = w) \<and>
         (- (2 ^ 31) \<le> h \<and> h < 2 ^ 31 \<longrightarrow> height (stream_info_at E st' s) = h) \<and>
         (enable st s \<longrightarrow> effects st' = effects st @ [pipeline_stop, pipeline_start (cfg st')]) \<and>
         (\<not> enable st s \<longrightarrow> effects st' = effects st)"
  using assms
  by (auto simp: changeResolution_def and_then_def map_at_def Let_def rejected_def accepted_def
      static_cast_int_id split: option.splits if_splits)

theorem changeResolution_commits_witness:
  "changeResolution example_env color_enabled COLOR (PARAMETER_INTEGER_ARRAY [1280, 720]) =
     Inr (accepted,
       color_enabled\<lparr>cfg := [COLOR \<mapsto> video_request 1280 720 5 30],
         stream_info := [COLOR \<mapsto> \<lparr>width = 1280, height = 720, fps = 30\<rparr>],
         effects := [pipeline_stop, pipeline_start [COLOR \<mapsto> video_request 1280 720 5 30]]\<rparr>) \<and>
   width (stream_info_at example_env
      (color_enabled\<lparr>cfg := [COLOR \<mapsto> video_request 1280 720 5 30],
         stream_info := [COLOR \<mapsto> \<lparr>width = 1280, height = 720, fps = 30\<rparr>],
         effects := [pipeline_stop, pipeline_start [COLOR \<mapsto> video_request 1280 720 5 30]]\<rparr>)
      COLOR) = 1280 \<and>
   successful accepted \<and> enable color_enabled COLOR"
proof -
  have s: "successful accepted"
    by (simp add: accepted_def)
  have e: "enable color_enabled COLOR"
    by (simp add: color_enabled_eq)
  show ?thesis
    using changeResolution_commits [OF changeResolution_720 s] changeResolution_720 s e
    by simp
qed

text \<open>
  C4 as stated fails for a width outside the range of \<open>int\<close>: the request
  \<open>[4294967936, 480]\<close> is accepted (the SDK is asked for 640 by 480) and the width
  recorded is 640.
\<close>

theorem changeResolution_narrows:
  "changeResolution example_env color_enabled COLOR
      (PARAMETER_INTEGER_ARRAY [4294967936, 480]) =
     Inr (accepted, color_enabled\<lparr>effects := [pipeline_stop, pipeline_start (cfg color_enabled)]\<rparr>) \<and>
   successful accepted \<and>
   width (stream_info_at example_env
      (color_enabled\<lparr>effects := [pipeline_stop, pipeline_start (cfg color_enabled)]\<rparr>) COLOR) = 640 \<and>
   width (stream_info_at example_env
      (color_enabled\<lparr>effects := [pipeline_stop, pipeline_start (cfg color_enabled)]\<rparr>) COLOR)
     \<noteq> 4294967936"
  by (simp add: changeResolution_wide accepted_def) (simp add: color_enabled_eq stream_info_at_def)

text \<open>
  C2, as the code has it. When \<open>changeResolution\<close> or \<open>changeFPS\<close> answers
  \<open>successful = false\<close> to a parameter of the right type, the SDK could not resolve
  the proposal: the reason is the fixed one, the stream info, the enable map and the
  pipeline trace are as before the call (no restart), and the SDK configuration
  holds the rejected proposal for \<open>s\<close>; it is not rolled back.
\<close>

theorem failed_change_keeps_proposal:
  "(changeResolution E st s (PARAMETER_INTEGER_ARRAY xs) = Inr (res, st') \<and> \<not> successful res \<longrightarrow>
      reason res = ''Unsupported resolution.'' \<and>
      stream_info_at E st' = stream_info_at E st \<and> enable st' = enable st \<and>
      effects st' = effects st \<and> \<not> can_resolve E (cfg st') \<and>
      (\<exists>fmt. STREAM_FORMAT E (fst s) = Some fmt \<and>
         cfg st' = (cfg st)(s \<mapsto> video_request (static_cast_int (xs ! 0))
           (static_cast_int (xs ! 1)) fmt (fps (stream_info_at E st s))))) \<and>
   (changeFPS E st s (PARAMETER_INTEGER v) = Inr (res, st') \<and> \<not> successful res \<longrightarrow>
      reason res = ''Unsupported configuration.'' \<and>
      stream_info_at E st' = stream_info_at E st \<and> enable st' = enable st \<and>
      effects st' = effects st \<and> \<not> can_resolve E (cfg st') \<and>
      (\<exists>fmt. STREAM_FORMAT E (fst s) = Some fmt \<and>
         cfg st' = (cfg st)(s \<mapsto> video_request (width (stream_info_at E st s))
           (height (stream_info_at E st s)) fmt (static_cast_int v))))"
  (is "?A \<and> ?B")
proof (rule conjI)
  show ?A
    by (auto simp: changeResolution_def and_then_def map_at_def Let_def rejected_def accepted_def
        enable_stream_def split: option.splits if_splits)
  show ?B
    by (auto simp: changeFPS_def and_then_def map_at_def Let_def rejected_def accepted_def
        enable_stream_def split: option.splits if_splits)
qed

theorem failed_change_keeps_proposal_witness:
  "changeResolution example_env color_enabled COLOR (PARAMETER_INTEGER_ARRAY [99999, 99999]) =
     Inr (rejected ''Unsupported resolution.'',
       color_enabled\<lparr>cfg := [COLOR \<mapsto> video_request 99999 99999 5 30]\<rparr>) \<and>
   changeFPS example_env color_enabled COLOR (PARAMETER_INTEGER 7) =
     Inr (rejected ''Unsupported configuration.'',
       color_enabled\<lparr>cfg := [COLOR \<mapsto> video_request 640 480 5 7]\<rparr>) \<and>
   cfg (color_enabled\<lparr>cfg := [COLOR \<mapsto> video_request 99999 99999 5 30]\<rparr>) =
     (cfg color_enabled)(COLOR \<mapsto> video_request 99999 99999 5 30) \<and>
   cfg (color_enabled\<lparr>cfg := [COLOR \<mapsto> video_request 640 480 5 7]\<rparr>) =
     (cfg color_enabled)(COLOR \<mapsto> video_request 640 480 5 7) \<and>
   \<not> successful (rejected ''Unsupported resolution.'') \<and>
   \<not> successful (rejected ''Unsupported configuration.'')"
proof -
  have a: "\<not> successful (rejected ''Unsupported resolution.'')"
    and b: "\<not> successful (rejected ''Unsupported configuration.'')"
    by (simp_all add: rejected_def)
  show ?thesis
    using failed_change_keeps_proposal [of example_env color_enabled COLOR "[99999, 99999]"
        "rejected ''Unsupported resolution.''"
        "color_enabled\<lparr>cfg := [COLOR \<mapsto> video_request 99999 99999 5 30]\<rparr>"]
      failed_change_keeps_proposal [of example_env color_enabled COLOR _
        "rejected ''Unsupported configuration.''"
        "color_enabled\<lparr>cfg := [COLOR \<mapsto> video_request 640 480 5 7]\<rparr>" 7]
      changeResolution_huge changeFPS_7 a b
    by (simp add: color_enabled_eq)
qed

text \<open>
  C2 as stated fails: after the rejected request \<open>[99999, 99999]\<close> the SDK
  configuration holds 99999 by 99999 for COLOR, not the 640 by 480 it held before.
\<close>

theorem failed_change_not_rolled_back:
  "changeResolution example_env color_enabled COLOR (PARAMETER_INTEGER_ARRAY [99999, 99999]) =
     Inr (\<lparr>successful = False, reason = ''Unsupported resolution.''\<rparr>,
       color_enabled\<lparr>cfg := [COLOR \<mapsto> video_request 99999 99999 5 30]\<rparr>) \<and>
   cfg (color_enabled\<lparr>cfg := [COLOR \<mapsto> video_request 99999 99999 5 30]\<rparr>) COLOR =
     Some (video_request 99999 99999 5 30) \<and>
   cfg color_enabled COLOR = Some (video_request 640 480 5 30) \<and>
   cfg (color_enabled\<lparr>cfg := [COLOR \<mapsto> video_request 99999 99999 5 30]\<rparr>) \<noteq> cfg color_enabled"
proof -
  have "cfg (color_enabled\<lparr>cfg := [COLOR \<mapsto> video_request 99999 99999 5 30]\<rparr>) COLOR
      \<noteq> cfg color_enabled COLOR"
    by (simp add: color_enabled_eq)
  then have "cfg (color_enabled\<lparr>cfg := [COLOR \<mapsto> video_request 99999 99999 5 30]\<rparr>)
      \<noteq> cfg color_enabled"
    by metis
  then show ?thesis
    by (simp add: changeResolution_huge rejected_def) (simp add: color_enabled_eq)
qed

text \<open>
  C3. On the enabled COLOR stream, an accepted \<open>changeResolution\<close> and an accepted
  \<open>changeFPS\<close> stop the pipeline and start it at once: their traces have no
  settling delay between the two. \<open>toggleStream\<close>, enabling a stream, does sleep for
  200 ms between stop and start.
\<close>

theorem change_restarts_without_delay:
  "enable color_enabled COLOR \<and>
   changeResolution example_env color_enabled COLOR (PARAMETER_INTEGER_ARRAY [1280, 720]) =
     Inr (\<lparr>successful = True, reason = []\<rparr>,
       color_enabled\<lparr>cfg := [COLOR \<mapsto> video_request 1280 720 5 30],
         stream_info := [COLOR \<mapsto> \<lparr>width = 1280, height = 720, fps = 30\<rparr>],
         effects := [pipeline_stop, pipeline_start [COLOR \<mapsto> video_request 1280 720 5 30]]\<rparr>) \<and>
   changeFPS example_env color_enabled COLOR (PARAMETER_INTEGER 15) =
     Inr (\<lparr>successful = True, reason = []\<rparr>,
       color_enabled\<lparr>cfg := [COLOR \<mapsto> video_request 640 480 5 15],
         stream_info := [COLOR \<mapsto> \<lparr>width = 640, height = 480, fps = 15\<rparr>],
         effects := [pipeline_stop, pipeline_start [COLOR \<mapsto> video_request 640 480 5 15]]\<rparr>) \<and>
   toggleStream example_env RealSenseBase_init DEPTH (PARAMETER_BOOL True) =
     Inr (\<lparr>successful = True, reason = []\<rparr>,
       RealSenseBase_init\<lparr>cfg := [DEPTH \<mapsto> video_request 0 0 1 0],
         enable := (\<lambda>s. False)(DEPTH := True),
         stream_info := [DEPTH \<mapsto> \<lparr>width = 0, height = 0, fps = 0\<rparr>],
         effects := [pipeline_stop, sleep_for_ms 200,
                     pipeline_start [DEPTH \<mapsto> video_request 0 0 1 0]]\<rparr>)"
  by (simp add: changeResolution_def changeFPS_def toggleStream_def color_enabled_eq eval_defs
      stream_defs)

section \<open>Publishing a video frame\<close>

lemma and_then_Inr: "and_then m f = Inr y \<longleftrightarrow> (\<exists>x. m = Inr x \<and> f x = Inr y)"
  by (cases m) (simp_all add: and_then_def)

lemma map_at_Inr: "map_at m x = Inr v \<longleftrightarrow> m x = Some v"
  by (simp add: map_at_def split: option.splits)

lemma color_frame_published:
  "publishImageTopic example_env color_enabled color_frame 42 =
     Inr (color_enabled
       \<lparr>camera_info := (\<lambda>s. CameraInfo_init)
          (COLOR := CameraInfo_init\<lparr>header := \<lparr>stamp = 42, frame_id = []\<rparr>\<rparr>),
        effects :=
          [publish \<lparr>topic = ''/camera/color/image_raw'', depth = 1\<rparr>
             (ImageMsg \<lparr>img_header = \<lparr>stamp = 42, frame_id = ''camera_color_optical_frame''\<rparr>,
                img_height = 480, img_width = 640, encoding = ''rgb8'', data = []\<rparr>),
           publish \<lparr>topic = ''/camera/color/camera_info'', depth = 1\<rparr>
             (CameraInfoMsg (CameraInfo_init\<lparr>header := \<lparr>stamp = 42, frame_id = []\<rparr>\<rparr>))]\<rparr>)"
  by (simp add: publishImageTopic_def color_frame_def color_enabled_eq eval_defs stream_defs
      CameraInfo_init_def)

text \<open>
  C6. \<open>publishImageTopic\<close> returns exactly when the tables have the entries of the
  frame's stream and both publishers of the stream exist. When it returns for a
  frame of the stream (kind, index) and the time \<open>t\<close>, it has published exactly two
  messages: the image, whose header has the frame id \<open>OPTICAL_FRAME_ID[(kind, index)]\<close>
  and the stamp \<open>t\<close>, and the cached camera info of the stream, stamped \<open>t\<close> as well.
\<close>

theorem published_headers:
  "(\<exists>st1. publishImageTopic E st frame t = Inr st1) =
     (CV_FORMAT E (frame_type frame) \<noteq> None \<and> MSG_ENCODING E (frame_type frame) \<noteq> None \<and>
      OPTICAL_FRAME_ID E (frame_type frame, frame_index frame) \<noteq> None \<and>
      image_pub st (frame_type frame, frame_index frame) \<noteq> None \<and>
      camera_info_pub st (frame_type frame, frame_index frame) \<noteq> None) \<and>
   (publishImageTopic E st frame t = Inr st' \<longrightarrow>
      (\<exists>ip cp img ci.
         effects st' = effects st @
           [if use_intra_process_comms E then publish_move ip (ImageMsg img)
            else publish ip (ImageMsg img),
            publish cp (CameraInfoMsg ci)] \<and>
         image_pub st (frame_type frame, frame_index frame) = Some ip \<and>
         camera_info_pub st (frame_type frame, frame_index frame) = Some cp \<and>
         OPTICAL_FRAME_ID E (frame_type frame, frame_index frame) =
           Some (frame_id (img_header img)) \<and>
         stamp (img_header img) = t \<and>
         stamp (header ci) = t \<and>
         camera_info st' (frame_type frame, frame_index frame) = ci))"
  (is "?A \<and> ?B")
proof (rule conjI)
  show ?A
  proof
    assume "\<exists>st1. publishImageTopic E st frame t = Inr st1"
    then show "CV_FORMAT E (frame_type frame) \<noteq> None \<and>
        MSG_ENCODING E (frame_type frame) \<noteq> None \<and>
        OPTICAL_FRAME_ID E (frame_type frame, frame_index frame) \<noteq> None \<and>
        image_pub st (frame_type frame, frame_index frame) \<noteq> None \<and>
        camera_info_pub st (frame_type frame, frame_index frame) \<noteq> None"
      by (auto simp: publishImageTopic_def and_then_Inr map_at_Inr Let_def split: option.splits)
  next
    assume "CV_FORMAT E (frame_type frame) \<noteq> None \<and>
        MSG_ENCODING E (frame_type frame) \<noteq> None \<and>
        OPTICAL_FRAME_ID E (frame_type frame, frame_index frame) \<noteq> None \<and>
        image_pub st (frame_type frame, frame_index frame) \<noteq> None \<and>
        camera_info_pub st (frame_type frame, frame_index frame) \<noteq> None"
    then show "\<exists>st1. publishImageTopic E st frame t = Inr st1"
      by (auto simp: publishImageTopic_def and_then_def map_at_def Let_def)
  qed
  show ?B
  proof (rule impI)
    assume "publishImageTopic E st frame t = Inr st'"
    then show "\<exists>ip cp img ci.
         effects st' = effects st @
           [if use_intra_process_comms E then publish_move ip (ImageMsg img)
            else publish ip (ImageMsg img),
            publish cp (CameraInfoMsg ci)] \<and>
         image_pub st (frame_type frame, frame_index frame) = Some ip \<and>
         camera_info_pub st (frame_type frame, frame_index frame) = Some cp \<and>
         OPTICAL_FRAME_ID E (frame_type frame, frame_index frame) =
           Some (frame_id (img_header img)) \<and>
         stamp (img_header img) = t \<and>
         stamp (header ci) = t \<and>
         camera_info st' (frame_type frame, frame_index frame) = ci"
      by (auto simp: publishImageTopic_def and_then_Inr map_at_Inr Let_def split: option.splits)
  qed
qed

theorem published_headers_witness:
  "\<exists>st' img ci.
     publishImageTopic example_env color_enabled color_frame 42 = Inr st' \<and>
     effects st' =
       [publish \<lparr>topic = ''/camera/color/image_raw'', depth = 1\<rparr> (ImageMsg img),
        publish \<lparr>topic = ''/camera/color/camera_info'', depth = 1\<rparr> (CameraInfoMsg ci)] \<and>
     frame_id (img_header img) = ''camera_color_optical_frame'' \<and>
     stamp (img_header img) = 42 \<and> stamp (header ci) = 42 \<and>
     stamp (header (camera_info st' COLOR)) = 42"
proof -
  have pre: "CV_FORMAT example_env (frame_type color_frame) \<noteq> None \<and>
      MSG_ENCODING example_env (frame_type color_frame) \<noteq> None \<and>
      OPTICAL_FRAME_ID example_env (frame_type color_frame, frame_index color_frame) \<noteq> None \<and>
      image_pub color_enabled (frame_type color_frame, frame_index color_frame) \<noteq> None \<and>
      camera_info_pub color_enabled (frame_type color_frame, frame_index color_frame) \<noteq> None"
    by (simp add: example_env_def color_enabled_eq color_frame_def stream_defs)
  from published_headers [of example_env color_enabled color_frame 42] pre
  obtain st' where u: "publishImageTopic example_env color_enabled color_frame 42 = Inr st'"
    by blast
  from published_headers [of example_env color_enabled color_frame 42 st'] u
  obtain ip cp img ci where
    e: "effects st' = effects color_enabled @
          [if use_intra_process_comms example_env then publish_move ip (ImageMsg img)
           else publish ip (ImageMsg img), publish cp (CameraInfoMsg ci)]"
    and i: "image_pub color_enabled (frame_type color_frame, frame_index color_frame) = Some ip"
    and c: "camera_info_pub color_enabled (frame_type color_frame, frame_index color_frame) = Some cp"
    and f: "OPTICAL_FRAME_ID example_env (frame_type color_frame, frame_index color_frame) =
          Some (frame_id (img_header img))"
    and s1: "stamp (img_header img) = 42" and s2: "stamp (header ci) = 42"
    and k1: "camera_info st' (frame_type color_frame, frame_index color_frame) = ci"
    by blast
  from e i c f k1 s2
  have "effects st' =
       [publish \<lparr>topic = ''/camera/color/image_raw'', depth = 1\<rparr> (ImageMsg img),
        publish \<lparr>topic = ''/camera/color/camera_info'', depth = 1\<rparr> (CameraInfoMsg ci)] \<and>
     frame_id (img_header img) = ''camera_color_optical_frame'' \<and>
     stamp (header (camera_info st' COLOR)) = 42"
    by (auto simp: example_env_def color_enabled_eq color_frame_def stream_defs)
  with u s1 s2 show ?thesis
    by blast
qed

section \<open>The enable map and the SDK configuration\<close>

lemma declare_parameter_frame:
  "declare_parameter E st n dv ro = Inr (v, st') \<Longrightarrow>
     cfg st' = cfg st \<and> enable st' = enable st \<and> camera_info st' = camera_info st"
  by (auto simp: declare_parameter_def Let_def split: option.splits)

lemma declare_bool_frame:
  "declare_bool E st n dv = Inr (v, st') \<Longrightarrow>
     cfg st' = cfg st \<and> enable st' = enable st \<and> camera_info st' = camera_info st"
proof -
  assume "declare_bool E st n dv = Inr (v, st')"
  then obtain pv where a: "declare_parameter E st n (PARAMETER_BOOL dv) False = Inr (pv, st')"
    by (clarsimp simp: declare_bool_def and_then_Inr) (case_tac a; simp)
  then show ?thesis
    by (rule declare_parameter_frame)
qed

lemma declare_int_frame:
  "declare_int E st n dv ro = Inr (v, st') \<Longrightarrow>
     cfg st' = cfg st \<and> enable st' = enable st \<and> camera_info st' = camera_info st"
proof -
  assume "declare_int E st n dv ro = Inr (v, st')"
  then obtain pv where a: "declare_parameter E st n (PARAMETER_INTEGER dv) ro = Inr (pv, st')"
    by (clarsimp simp: declare_int_def and_then_Inr) (case_tac a; simp)
  then show ?thesis
    by (rule declare_parameter_frame)
qed

lemma declare_integer_array_frame:
  "declare_integer_array E st n dv ro = Inr (v, st') \<Longrightarrow>
     cfg st' = cfg st \<and> enable st' = enable st \<and> camera_info st' = camera_info st"
proof -
  assume "declare_integer_array E st n dv ro = Inr (v, st')"
  then obtain pv where a: "declare_parameter E st n (PARAMETER_INTEGER_ARRAY dv) ro = Inr (pv, st')"
    by (clarsimp simp: declare_integer_array_def and_then_Inr) (case_tac a; simp)
  then show ?thesis
    by (rule declare_parameter_frame)
qed

lemma declare_video_parameters_frame:
  "declare_video_parameters E st n s = Inr (res, f, st') \<Longrightarrow>
     cfg st' = cfg st \<and> enable st' = enable st \<and> camera_info st' = camera_info st"
  by (auto simp: declare_video_parameters_def and_then_Inr split: if_splits
      dest!: declare_int_frame declare_integer_array_frame)

lemma declare_video_parameters_uncatalogued:
  "\<not> catalogued s \<Longrightarrow> declare_video_parameters E st n s = Inr ([], None, st)"
  by (simp add: declare_video_parameters_def catalogued_def)

lemma declare_video_parameters_assigned:
  "declare_video_parameters E st n s = Inr (res, None, st') \<Longrightarrow> res = []"
  by (auto simp: declare_video_parameters_def and_then_Inr split: if_splits)

lemma setupStream_change:
  assumes "setupStream E st x = Inr st'"
  shows "camera_info st' = camera_info st \<and>
         ((cfg st' = cfg st \<and> enable st' = enable st) \<or>
          (\<exists>rq. cfg st' = (cfg st)(x \<mapsto> rq) \<and> enable st' = (enable st)(x := True)))"
  using assms
  apply (simp add: setupStream_def and_then_Inr map_at_Inr)
  apply (elim exE conjE)
  apply (auto simp: and_then_Inr map_at_Inr Let_def enable_stream_def split: if_splits
      dest!: declare_bool_frame declare_video_parameters_frame)
  done

lemma setupStream_catalogued:
  assumes "setupStream E st s = Inr st'"
  shows "catalogued s"
proof (rule ccontr)
  assume n: "\<not> catalogued s"
  then have "s \<noteq> ACCEL" "s \<noteq> GYRO" "s \<noteq> POSE"
    by (auto simp: catalogued_def)
  with assms n show False
    by (auto simp: setupStream_def and_then_Inr map_at_Inr make_info_def
        declare_video_parameters_uncatalogued)
qed


lemma toggleStream_change:
  assumes "toggleStream E st x param = Inr (res, st')"
  shows "camera_info st' = camera_info st \<and>
         ((cfg st' = cfg st \<and> enable st' = enable st) \<or>
          (\<exists>rq. cfg st' = (cfg st)(x \<mapsto> rq) \<and> enable st' = (enable st)(x := True)) \<or>
          (cfg st' = (cfg st)(x := None) \<and> enable st' = (enable st)(x := False)))"
proof (cases param)
  case (PARAMETER_BOOL b)
  with assms show ?thesis
    by (auto simp: toggleStream_def and_then_Inr map_at_Inr Let_def enable_stream_def
        disable_stream_def split: if_splits)
qed (use assms in \<open>simp_all add: toggleStream_def\<close>)

lemma changeResolution_change:
  assumes "changeResolution E st x param = Inr (res, st')"
  shows "camera_info st' = camera_info st \<and> enable st' = enable st \<and>
         (cfg st' = cfg st \<or> (\<exists>rq. cfg st' = (cfg st)(x \<mapsto> rq)))"
proof (cases param)
  case (PARAMETER_INTEGER_ARRAY xs)
  with assms show ?thesis
    by (auto simp: changeResolution_def and_then_Inr map_at_Inr Let_def enable_stream_def
        split: if_splits)
qed (use assms in \<open>simp_all add: changeResolution_def\<close>)

lemma changeFPS_change:
  assumes "changeFPS E st x param = Inr (res, st')"
  shows "camera_info st' = camera_info st \<and> enable st' = enable st \<and>
         (cfg st' = cfg st \<or> (\<exists>rq. cfg st' = (cfg st)(x \<mapsto> rq)))"
proof (cases param)
  case (PARAMETER_INTEGER v)
  with assms show ?thesis
    by (auto simp: changeFPS_def and_then_Inr map_at_Inr Let_def enable_stream_def
        split: if_splits)
qed (use assms in \<open>simp_all add: changeFPS_def\<close>)

lemma updateVideoStreamCalibData_frame:
  "updateVideoStreamCalibData E st v = Inr st' \<Longrightarrow> cfg st' = cfg st \<and> enable st' = enable st"
  by (auto simp: updateVideoStreamCalibData_def and_then_Inr Let_def)

lemma update_profiles_frame:
  "update_profiles E st ps = Inr st' \<Longrightarrow> cfg st' = cfg st \<and> enable st' = enable st"
proof (induction E st ps rule: update_profiles.induct)
  case (2 E st v rest)
  then show ?case
    by (auto simp: and_then_Inr dest: updateVideoStreamCalibData_frame)
qed simp_all

lemma startPipeline_frame:
  "startPipeline E st = Inr st' \<Longrightarrow> cfg st' = cfg st \<and> enable st' = enable st"
  by (auto simp: startPipeline_def and_then_Inr split: option.splits
      dest: update_profiles_frame)

lemma publishImageTopic_frame:
  "publishImageTopic E st frame t = Inr st' \<Longrightarrow> cfg st' = cfg st \<and> enable st' = enable st"
  by (auto simp: publishImageTopic_def and_then_Inr Let_def split: option.splits)

lemma run_setup_color: "run example_env RealSenseBase_init [SetupStream COLOR] = Inr color_enabled"
proof -
  have "setupStream example_env RealSenseBase_init COLOR = Inr color_enabled"
    unfolding color_enabled_eq by (simp add: eval_defs stream_defs)
  then show ?thesis
    by (simp add: and_then_def)
qed

lemma toggleStream_pending:
  assumes "toggleStream E st x param = Inr (res, st')"
    and "(cfg st s \<noteq> None) = (enable st s \<or> b)" and "b \<longrightarrow> \<not> enable st s"
  shows "(cfg st' s \<noteq> None) = (enable st' s \<or> b)"
proof (cases param)
  case (PARAMETER_BOOL v)
  with assms show ?thesis
    by (auto simp: toggleStream_def and_then_Inr map_at_Inr Let_def enable_stream_def
        disable_stream_def split: if_splits)
qed (use assms in \<open>simp_all add: toggleStream_def\<close>)

lemma changeResolution_pending:
  assumes "changeResolution E st x param = Inr (res, st')"
    and "(cfg st s \<noteq> None) = (enable st s \<or> b)"
  shows "enable st' = enable st \<and>
         (cfg st' s \<noteq> None) = (enable st s \<or> b \<or> proposes s (ChangeResolution x param))"
proof (cases param)
  case (PARAMETER_INTEGER_ARRAY xs)
  with assms show ?thesis
    by (auto simp: changeResolution_def and_then_Inr map_at_Inr Let_def enable_stream_def
        split: if_splits)
qed (use assms in \<open>simp_all add: changeResolution_def\<close>)

lemma changeFPS_pending:
  assumes "changeFPS E st x param = Inr (res, st')"
    and "(cfg st s \<noteq> None) = (enable st s \<or> b)"
  shows "enable st' = enable st \<and>
         (cfg st' s \<noteq> None) = (enable st s \<or> b \<or> proposes s (ChangeFPS x param))"
proof (cases param)
  case (PARAMETER_INTEGER v)
  with assms show ?thesis
    by (auto simp: changeFPS_def and_then_Inr map_at_Inr Let_def enable_stream_def
        split: if_splits)
qed (use assms in \<open>simp_all add: changeFPS_def\<close>)

lemma step_pending:
  assumes "step E st c = Inr st'"
    and "(cfg st s \<noteq> None) = (enable st s \<or> b)" and "b \<longrightarrow> \<not> enable st s"
  shows "(cfg st' s \<noteq> None) = (enable st' s \<or> (\<not> enable st' s \<and> (b \<or> proposes s c)))"
proof (cases c)
  case (SetupStream x)
  with assms show ?thesis by (auto split: if_splits dest!: setupStream_change)
next
  case StartPipeline
  with assms show ?thesis by (auto dest!: startPipeline_frame)
next
  case (UpdateVideoStreamCalibData v)
  with assms show ?thesis by (auto dest!: updateVideoStreamCalibData_frame)
next
  case (PublishImageTopic frame t)
  with assms show ?thesis by (auto dest!: publishImageTopic_frame)
next
  case (ToggleStream x param)
  with assms(1) obtain res where "toggleStream E st x param = Inr (res, st')"
    by (auto simp: and_then_Inr)
  from toggleStream_pending [OF this assms(2,3)] ToggleStream show ?thesis
    by auto
next
  case (ChangeResolution x param)
  with assms(1) obtain res where "changeResolution E st x param = Inr (res, st')"
    by (auto simp: and_then_Inr)
  from changeResolution_pending [OF this assms(2)] ChangeResolution assms(3) show ?thesis
    by auto
next
  case (ChangeFPS x param)
  with assms(1) obtain res where "changeFPS E st x param = Inr (res, st')"
    by (auto simp: and_then_Inr)
  from changeFPS_pending [OF this assms(2)] ChangeFPS assms(3) show ?thesis
    by auto
qed

lemma run_pending:
  "run E st cs = Inr st' \<Longrightarrow> (cfg st s \<noteq> None) = (enable st s \<or> b) \<Longrightarrow>
   b \<longrightarrow> \<not> enable st s \<Longrightarrow>
     (cfg st' s \<noteq> None) = (enable st' s \<or> pending E st s b cs) \<and>
     (pending E st s b cs \<longrightarrow> \<not> enable st' s)"
proof (induction cs arbitrary: st b)
  case Nil
  then show ?case by simp
next
  case (Cons c cs)
  from Cons.prems(1) obtain st1 where a: "step E st c = Inr st1" and r: "run E st1 cs = Inr st'"
    by (auto simp: and_then_Inr)
  let ?b = "\<not> enable st1 s \<and> (b \<or> proposes s c)"
  from step_pending [OF a Cons.prems(2,3)]
  have i: "(cfg st1 s \<noteq> None) = (enable st1 s \<or> ?b)" .
  have j: "?b \<longrightarrow> \<not> enable st1 s"
    by simp
  from Cons.IH [OF r i j] a show ?case
    by simp
qed

lemma pending_without_proposal:
  "\<forall>c \<in> set cs. \<not> proposes s c \<Longrightarrow> pending E st s False cs = False"
proof (induction cs arbitrary: st)
  case Nil
  then show ?case by simp
next
  case (Cons c cs)
  then show ?case
    by (cases "step E st c") simp_all
qed

lemma run_color_720:
  "run example_env RealSenseBase_init
      [SetupStream COLOR, ChangeResolution COLOR (PARAMETER_INTEGER_ARRAY [1280, 720])] =
     Inr (color_enabled\<lparr>cfg := [COLOR \<mapsto> video_request 1280 720 5 30],
         stream_info := [COLOR \<mapsto> \<lparr>width = 1280, height = 720, fps = 30\<rparr>],
         effects := [pipeline_stop, pipeline_start [COLOR \<mapsto> video_request 1280 720 5 30]]\<rparr>)"
proof -
  have "setupStream example_env RealSenseBase_init COLOR = Inr color_enabled"
    unfolding color_enabled_eq by (simp add: eval_defs stream_defs)
  then show ?thesis
    by (simp add: and_then_def changeResolution_720)
qed

lemma run_depth_1280:
  "run example_env RealSenseBase_init
      [SetupStream DEPTH, ChangeResolution DEPTH (PARAMETER_INTEGER_ARRAY [1280, 720])] =
     Inr depth_reconfigured"
  by (simp add: depth_reconfigured_def changeResolution_def eval_defs stream_defs)

text \<open>
  C1, as the code has it. After every sequence of calls on a fresh object, a stream
  whose enable flag is true is in the SDK configuration. The configuration holds a
  stream \<open>s\<close> whose flag is false exactly when a proposal for \<open>s\<close> is pending:
  \<open>changeResolution\<close> or \<open>changeFPS\<close> was called for \<open>s\<close>, with a parameter of the
  right type, while \<open>s\<close> was disabled, and \<open>s\<close> has not been enabled since. So the
  configuration mirrors the enable map of \<open>s\<close> after every other sequence of calls,
  those that reconfigure \<open>s\<close> while it is enabled included.
\<close>

theorem enabled_streams_in_config:
  assumes "run E RealSenseBase_init cs = Inr st"
  shows "(enable st s \<longrightarrow> cfg st s \<noteq> None) \<and>
         (cfg st s \<noteq> None \<and> \<not> enable st s) = pending E RealSenseBase_init s False cs \<and>
         ((\<forall>c \<in> set cs. \<not> proposes s c) \<longrightarrow> (cfg st s \<noteq> None) = enable st s)"
proof -
  have i: "(cfg RealSenseBase_init s \<noteq> None) = (enable RealSenseBase_init s \<or> False)"
    and j: "False \<longrightarrow> \<not> enable RealSenseBase_init s"
    by (simp_all add: RealSenseBase_init_def)
  from run_pending [OF assms i j]
  have a: "(cfg st s \<noteq> None) = (enable st s \<or> pending E RealSenseBase_init s False cs)"
    and b: "pending E RealSenseBase_init s False cs \<longrightarrow> \<not> enable st s"
    by simp_all
  from a b pending_without_proposal [of cs s E RealSenseBase_init] show ?thesis
    by blast
qed

theorem enabled_streams_in_config_witness:
  "run example_env RealSenseBase_init
      [SetupStream COLOR, ChangeResolution COLOR (PARAMETER_INTEGER_ARRAY [1280, 720])] =
     Inr (color_enabled\<lparr>cfg := [COLOR \<mapsto> video_request 1280 720 5 30],
         stream_info := [COLOR \<mapsto> \<lparr>width = 1280, height = 720, fps = 30\<rparr>],
         effects := [pipeline_stop, pipeline_start [COLOR \<mapsto> video_request 1280 720 5 30]]\<rparr>) \<and>
   enable color_enabled COLOR \<and>
   \<not> pending example_env RealSenseBase_init COLOR False
      [SetupStream COLOR, ChangeResolution COLOR (PARAMETER_INTEGER_ARRAY [1280, 720])] \<and>
   run example_env RealSenseBase_init
      [SetupStream DEPTH, ChangeResolution DEPTH (PARAMETER_INTEGER_ARRAY [1280, 720])] =
     Inr depth_reconfigured \<and>
   pending example_env RealSenseBase_init DEPTH False
      [SetupStream DEPTH, ChangeResolution DEPTH (PARAMETER_INTEGER_ARRAY [1280, 720])] \<and>
   cfg color_enabled DEPTH = None \<and> \<not> enable color_enabled DEPTH"
proof -
  have e: "enable color_enabled COLOR" and dn: "\<not> enable color_enabled DEPTH"
    by (simp_all add: color_enabled_eq stream_defs)
  have n: "\<forall>c \<in> set [SetupStream COLOR]. \<not> proposes DEPTH c"
    by simp
  have dd: "cfg depth_reconfigured DEPTH \<noteq> None \<and> \<not> enable depth_reconfigured DEPTH"
    by (simp add: depth_reconfigured_def)
  show ?thesis
    using enabled_streams_in_config [OF run_color_720, of COLOR]
      enabled_streams_in_config [OF run_depth_1280, of DEPTH]
      enabled_streams_in_config [OF run_setup_color, of DEPTH]
      run_color_720 run_depth_1280 e dn n dd
    by simp
qed

text \<open>
  C1 as stated fails: after \<open>setupStream(DEPTH)\<close> with DEPTH disabled and an accepted
  \<open>changeResolution(DEPTH, [1280, 720])\<close>, the configuration holds DEPTH and the
  enable flag of DEPTH is false.
\<close>

theorem config_holds_disabled_stream:
  "run example_env RealSenseBase_init
      [SetupStream DEPTH, ChangeResolution DEPTH (PARAMETER_INTEGER_ARRAY [1280, 720])] =
     Inr depth_reconfigured \<and>
   cfg depth_reconfigured DEPTH = Some (video_request 1280 720 1 30) \<and>
   \<not> enable depth_reconfigured DEPTH"
  by (simp add: depth_reconfigured_def changeResolution_def eval_defs stream_defs)

section \<open>The resolution vector of setupStream\<close>

lemma and_then_Inl:
  "and_then m f = Inl e \<longleftrightarrow> m = Inl e \<or> (\<exists>x. m = Inr x \<and> f x = Inl e)"
  by (cases m) (simp_all add: and_then_def)

lemma map_at_Inl: "map_at m x = Inl e \<longleftrightarrow> m x = None \<and> e = out_of_range"
  by (auto simp: map_at_def split: option.splits)

lemma declare_parameter_Inl:
  "declare_parameter E st n dv ro = Inl e \<Longrightarrow> e = ParameterAlreadyDeclaredException"
  by (auto simp: declare_parameter_def Let_def split: option.splits)

lemma declare_bool_Inl:
  "declare_bool E st n dv = Inl e \<Longrightarrow> e \<noteq> vector_index_out_of_bounds"
  apply (clarsimp simp: declare_bool_def and_then_Inl)
  apply (erule disjE)
   apply (drule declare_parameter_Inl, simp)
  apply clarify
  apply (case_tac a; simp)
  done

lemma declare_int_Inl:
  "declare_int E st n dv ro = Inl e \<Longrightarrow> e \<noteq> vector_index_out_of_bounds"
  apply (clarsimp simp: declare_int_def and_then_Inl)
  apply (erule disjE)
   apply (drule declare_parameter_Inl, simp)
  apply clarify
  apply (case_tac a; simp)
  done

lemma declare_integer_array_Inl:
  "declare_integer_array E st n dv ro = Inl e \<Longrightarrow> e \<noteq> vector_index_out_of_bounds"
  apply (clarsimp simp: declare_integer_array_def and_then_Inl)
  apply (erule disjE)
   apply (drule declare_parameter_Inl, simp)
  apply clarify
  apply (case_tac a; simp)
  done

lemma declare_video_parameters_Inl:
  "declare_video_parameters E st n s = Inl e \<Longrightarrow> e \<noteq> vector_index_out_of_bounds"
  by (auto simp: declare_video_parameters_def and_then_Inl split: if_splits
      dest: declare_int_Inl declare_integer_array_Inl)

lemma make_info_Inl:
  "make_info res f = Inl vector_index_out_of_bounds \<longleftrightarrow> length res < 2"
  by (auto simp: make_info_def split: option.splits)

lemma setupStream_reads:
  assumes "STREAM_NAME E (fst s) = Some name"
    and "declare_bool E st (param_name name s ''.enabled'') False = Inr (b, st1)"
  shows "(setupStream E st s = Inl vector_index_out_of_bounds) =
           (s \<noteq> ACCEL \<and> s \<noteq> GYRO \<and> s \<noteq> POSE \<and>
            (\<exists>res f st2. declare_video_parameters E st1 name s = Inr (res, f, st2) \<and>
               length res < 2))"
proof (cases "s = ACCEL \<or> s = GYRO \<or> s = POSE")
  case True
  with assms show ?thesis
    by (auto simp: setupStream_def and_then_def map_at_def Let_def split: option.splits)
next
  case False
  show ?thesis
  proof (cases "declare_video_parameters E st1 name s")
    case (Inl e)
    with assms False declare_video_parameters_Inl [OF Inl] show ?thesis
      by (simp add: setupStream_def and_then_def map_at_def)
  next
    case (Inr v)
    obtain res f st2 where v: "v = (res, f, st2)"
      by (cases v) auto
    show ?thesis
    proof (cases "make_info res f")
      case (Inl e)
      with assms False Inr v make_info_Inl [of res f] show ?thesis
        by (auto simp: setupStream_def and_then_def map_at_def)
    next
      case i: (Inr info)
      with make_info_Inl [of res f] have "\<not> length res < 2"
        by simp
      with assms False Inr v i show ?thesis
        by (auto simp: setupStream_def and_then_def map_at_def Let_def split: option.splits)
    qed
  qed
qed

lemma setupStream_early:
  assumes "setupStream E st s = Inl vector_index_out_of_bounds"
  shows "\<exists>name b st1. STREAM_NAME E (fst s) = Some name \<and>
           declare_bool E st (param_name name s ''.enabled'') False = Inr (b, st1)"
proof (cases "STREAM_NAME E (fst s)")
  case None
  with assms show ?thesis
    by (simp add: setupStream_def and_then_def map_at_def)
next
  case (Some name)
  show ?thesis
  proof (cases "declare_bool E st (param_name name s ''.enabled'') False")
    case (Inl e)
    with assms Some declare_bool_Inl [OF Inl] show ?thesis
      by (simp add: setupStream_def and_then_def map_at_def)
  next
    case (Inr v)
    with Some show ?thesis
      by (cases v) auto
  qed
qed

lemma declare_integer_array_value:
  assumes "declare_integer_array E st n dv ro = Inr (xs, st')"
  shows "parameter_overrides E n = Some (PARAMETER_INTEGER_ARRAY xs) \<or>
         parameter_overrides E n = None \<and> xs = dv"
proof -
  from assms obtain pv
    where a: "declare_parameter E st n (PARAMETER_INTEGER_ARRAY dv) ro = Inr (pv, st')"
      and b: "pv = PARAMETER_INTEGER_ARRAY xs"
    by (clarsimp simp: declare_integer_array_def and_then_Inr) (case_tac a; simp)
  from a b show ?thesis
    by (auto simp: declare_parameter_def Let_def split: option.splits)
qed

lemma declared_resolution:
  assumes "declare_video_parameters E st1 name s = Inr (res, f, st2)"
    and "s = COLOR \<or> s = DEPTH \<or> s = INFRA1 \<or> s = INFRA2 \<or> s = FISHEYE1 \<or> s = FISHEYE2"
  shows "parameter_overrides E (param_name name s ''.resolution'') =
           Some (PARAMETER_INTEGER_ARRAY res) \<or>
         parameter_overrides E (param_name name s ''.resolution'') = None \<and>
           res = (if s = FISHEYE1 \<or> s = FISHEYE2 then FISHEYE_RESOLUTION E
                  else DEFAULT_IMAGE_RESOLUTION E)"
proof (cases "s = COLOR \<or> s = DEPTH \<or> s = INFRA1 \<or> s = INFRA2")
  case True
  then have n: "\<not> (s = FISHEYE1 \<or> s = FISHEYE2)"
    by (auto simp: stream_defs)
  from assms(1) True obtain st' where
    "declare_integer_array E st1 (param_name name s ''.resolution'')
       (DEFAULT_IMAGE_RESOLUTION E) False = Inr (res, st')"
    by (auto simp: declare_video_parameters_def and_then_Inr)
  from declare_integer_array_value [OF this] n show ?thesis
    by simp
next
  case False
  with assms(2) have y: "s = FISHEYE1 \<or> s = FISHEYE2"
    by blast
  from assms(1) False y obtain st' where
    "declare_integer_array E st1 (param_name name s ''.resolution'')
       (FISHEYE_RESOLUTION E) True = Inr (res, st')"
    by (auto simp: declare_video_parameters_def and_then_Inr)
  from declare_integer_array_value [OF this] y show ?thesis
    by simp
qed

text \<open>
  C10, as the code has it. \<open>setupStream\<close> reads \<open>res[0]\<close> and \<open>res[1]\<close> outside the
  vector exactly when it reaches the video branch (the kind has a name, the
  \<open>enabled\<close> parameter is declared, the stream is not ACCEL, GYRO or POSE) and the
  resolution it declared there has fewer than two elements. For the six named video
  streams that resolution is the value supplied for \<open><name><index>.resolution\<close>, or
  else the default. For a stream that is not one of the nine, \<open>res\<close> is empty, so
  the read is outside the vector; \<open>setupStream\<close> returns only for one of the nine.
\<close>

theorem setupStream_resolution_reads:
  "(setupStream E st s = Inl vector_index_out_of_bounds) =
     (\<exists>name b st1 res f st2.
        STREAM_NAME E (fst s) = Some name \<and>
        declare_bool E st (param_name name s ''.enabled'') False = Inr (b, st1) \<and>
        s \<noteq> ACCEL \<and> s \<noteq> GYRO \<and> s \<noteq> POSE \<and>
        declare_video_parameters E st1 name s = Inr (res, f, st2) \<and> length res < 2) \<and>
   ((s = COLOR \<or> s = DEPTH \<or> s = INFRA1 \<or> s = INFRA2 \<or> s = FISHEYE1 \<or> s = FISHEYE2) \<and>
    declare_video_parameters E st1 name s = Inr (res, f, st2) \<longrightarrow>
      parameter_overrides E (param_name name s ''.resolution'') =
        Some (PARAMETER_INTEGER_ARRAY res) \<or>
      parameter_overrides E (param_name name s ''.resolution'') = None \<and>
        res = (if s = FISHEYE1 \<or> s = FISHEYE2 then FISHEYE_RESOLUTION E
               else DEFAULT_IMAGE_RESOLUTION E)) \<and>
   (\<not> catalogued s \<longrightarrow> declare_video_parameters E st1 name s = Inr ([], None, st1)) \<and>
   (setupStream E st s = Inr st' \<longrightarrow> catalogued s)"
  (is "?A \<and> ?B \<and> ?C \<and> ?D")
proof (intro conjI)
  show ?A
  proof
    assume a: "setupStream E st s = Inl vector_index_out_of_bounds"
    from setupStream_early [OF a] obtain name b st1
      where n: "STREAM_NAME E (fst s) = Some name"
        and db: "declare_bool E st (param_name name s ''.enabled'') False = Inr (b, st1)"
      by blast
    from setupStream_reads [OF n db] a n db
    show "\<exists>name b st1 res f st2.
        STREAM_NAME E (fst s) = Some name \<and>
        declare_bool E st (param_name name s ''.enabled'') False = Inr (b, st1) \<and>
        s \<noteq> ACCEL \<and> s \<noteq> GYRO \<and> s \<noteq> POSE \<and>
        declare_video_parameters E st1 name s = Inr (res, f, st2) \<and> length res < 2"
      by blast
  next
    assume "\<exists>name b st1 res f st2.
        STREAM_NAME E (fst s) = Some name \<and>
        declare_bool E st (param_name name s ''.enabled'') False = Inr (b, st1) \<and>
        s \<noteq> ACCEL \<and> s \<noteq> GYRO \<and> s \<noteq> POSE \<and>
        declare_video_parameters E st1 name s = Inr (res, f, st2) \<and> length res < 2"
    then obtain name b st1 res f st2
      where n: "STREAM_NAME E (fst s) = Some name"
        and db: "declare_bool E st (param_name name s ''.enabled'') False = Inr (b, st1)"
        and r: "s \<noteq> ACCEL \<and> s \<noteq> GYRO \<and> s \<noteq> POSE \<and>
          declare_video_parameters E st1 name s = Inr (res, f, st2) \<and> length res < 2"
      by blast
    from setupStream_reads [OF n db] r
    show "setupStream E st s = Inl vector_index_out_of_bounds"
      by blast
  qed
  show ?B
  proof (intro impI, elim conjE)
    assume "s = COLOR \<or> s = DEPTH \<or> s = INFRA1 \<or> s = INFRA2 \<or> s = FISHEYE1 \<or> s = FISHEYE2"
      and "declare_video_parameters E st1 name s = Inr (res, f, st2)"
    from declared_resolution [OF this(2) this(1)]
    show "parameter_overrides E (param_name name s ''.resolution'') =
        Some (PARAMETER_INTEGER_ARRAY res) \<or>
      parameter_overrides E (param_name name s ''.resolution'') = None \<and>
        res = (if s = FISHEYE1 \<or> s = FISHEYE2 then FISHEYE_RESOLUTION E
               else DEFAULT_IMAGE_RESOLUTION E)" .
  qed
  show ?C
    by (simp add: declare_video_parameters_uncatalogued)
  show ?D
    by (auto dest: setupStream_catalogued)
qed

theorem setupStream_resolution_reads_witness:
  "setupStream example_env RealSenseBase_init (RS2_STREAM_COLOR, 1) =
     Inl vector_index_out_of_bounds \<and>
   \<not> catalogued (RS2_STREAM_COLOR, 1) \<and>
   setupStream example_env RealSenseBase_init COLOR = Inr color_enabled \<and>
   catalogued COLOR \<and>
   setupStream example_env RealSenseBase_init COLOR \<noteq> Inl vector_index_out_of_bounds"
proof -
  let ?st1 = "RealSenseBase_init
        \<lparr>parameters := [''Color1.enabled'' \<mapsto> (PARAMETER_BOOL False, False)]\<rparr>"
  have n: "\<not> catalogued (RS2_STREAM_COLOR, 1)"
    by (simp add: catalogued_def stream_defs)
  have d3: "(RS2_STREAM_COLOR, 1) \<noteq> ACCEL \<and> (RS2_STREAM_COLOR, 1) \<noteq> GYRO \<and>
      (RS2_STREAM_COLOR, 1) \<noteq> POSE"
    by (simp add: stream_defs)
  have nm: "STREAM_NAME example_env (fst (RS2_STREAM_COLOR, 1 :: int)) = Some ''Color''"
    by (simp add: example_env_def)
  have db: "declare_bool example_env RealSenseBase_init
      (param_name ''Color'' (RS2_STREAM_COLOR, 1) ''.enabled'') False = Inr (False, ?st1)"
    by (simp add: eval_defs)
  have c: "setupStream example_env RealSenseBase_init COLOR = Inr color_enabled"
    unfolding color_enabled_eq by (simp add: eval_defs stream_defs)
  note t = setupStream_resolution_reads [of example_env RealSenseBase_init
      "(RS2_STREAM_COLOR, 1)" ?st1 "''Color''"]
  from t n have dv: "declare_video_parameters example_env ?st1 ''Color'' (RS2_STREAM_COLOR, 1) =
      Inr ([], None, ?st1)"
    by blast
  have "\<exists>name b st1 res f st2.
      STREAM_NAME example_env (fst (RS2_STREAM_COLOR, 1 :: int)) = Some name \<and>
      declare_bool example_env RealSenseBase_init
        (param_name name (RS2_STREAM_COLOR, 1) ''.enabled'') False = Inr (b, st1) \<and>
      (RS2_STREAM_COLOR, 1) \<noteq> ACCEL \<and> (RS2_STREAM_COLOR, 1) \<noteq> GYRO \<and>
      (RS2_STREAM_COLOR, 1) \<noteq> POSE \<and>
      declare_video_parameters example_env st1 name (RS2_STREAM_COLOR, 1) = Inr (res, f, st2) \<and>
      length res < 2"
    using nm db d3 dv by (intro exI [of _ "''Color''"] exI [of _ False] exI [of _ ?st1]
        exI [of _ "[]"] exI [of _ None]) simp
  with t have o: "setupStream example_env RealSenseBase_init (RS2_STREAM_COLOR, 1) =
      Inl vector_index_out_of_bounds"
    by blast
  from setupStream_resolution_reads [of example_env RealSenseBase_init COLOR _ _ _ _ _
      color_enabled] c
  have cc: "catalogued COLOR"
    by blast
  from o n c cc show ?thesis
    by simp
qed

text \<open>
  C10 as stated fails: for the catalogued stream COLOR, launched with the
  one-element \<open>Color0.resolution = [640]\<close>, line 90 reads \<open>res[1]\<close> outside the vector.
\<close>

theorem short_resolution_read:
  "catalogued COLOR \<and>
   setupStream short_resolution_env RealSenseBase_init COLOR = Inl vector_index_out_of_bounds"
  by (simp add: catalogued_def short_resolution_env_def eval_defs stream_defs)

section \<open>Calibration data\<close>

lemma length9:
  "length xs = 9 \<Longrightarrow> \<exists>x0 x1 x2 x3 x4 x5 x6 x7 x8. xs = [x0, x1, x2, x3, x4, x5, x6, x7, x8]"
  by (simp add: numeral_eq_Suc length_Suc_conv) blast

lemma length12:
  "length xs = 12 \<Longrightarrow>
     \<exists>x0 x1 x2 x3 x4 x5 x6 x7 x8 x9 x10 x11. xs = [x0, x1, x2, x3, x4, x5, x6, x7, x8, x9, x10, x11]"
  by (simp add: numeral_eq_Suc length_Suc_conv) blast

lemma length5:
  "length xs = 5 \<Longrightarrow> \<exists>x0 x1 x2 x3 x4. xs = [x0, x1, x2, x3, x4]"
  by (simp add: numeral_eq_Suc length_Suc_conv) blast

lemma length_resize: "length (resize xs n) = n"
  by (simp add: resize_def)

lemma fill_d:
  "fold (\<lambda>i ds. ds[i := cs ! i]) [0..<5] (resize xs 5) = [cs ! 0, cs ! 1, cs ! 2, cs ! 3, cs ! 4]"
proof -
  obtain x0 x1 x2 x3 x4 where e: "resize xs 5 = [x0, x1, x2, x3, x4]"
    using length5 [OF length_resize] by blast
  have u: "[0..<5] = [0, 1, 2, 3, 4]"
    by (simp add: upt_rec)
  show ?thesis
    unfolding e u by simp
qed

lemma fill_calib_values:
  assumes "calib_base ci"
  shows "k (fill_calib fid i ci) = [fx i, 0, ppx i, 0, fy i, ppy i, 0, 0, 1]"
    and "p (fill_calib fid i ci) = [fx i, 0, ppx i, 0, 0, fy i, ppy i, 0, 0, 0, 1, 0]"
    and "r (fill_calib fid i ci) = [1, 0, 0, 0, 1, 0, 0, 0, 1]"
    and "distortion_model (fill_calib fid i ci) = ''plumb_bob''"
    and "d (fill_calib fid i ci) = [coeffs i ! 0, coeffs i ! 1, coeffs i ! 2, coeffs i ! 3, coeffs i ! 4]"
    and "frame_id (header (fill_calib fid i ci)) = fid"
    and "stamp (header (fill_calib fid i ci)) = stamp (header ci)"
proof -
  from assms obtain x0 x1 x2 x3 x4 x5 x6 x7 x8 where ke: "k ci = [x0, x1, x2, x3, x4, x5, x6, x7, x8]"
    using length9 [of "k ci"] by (auto simp: calib_base_def)
  from assms obtain y0 y1 y2 y3 y4 y5 y6 y7 y8 where re: "r ci = [y0, y1, y2, y3, y4, y5, y6, y7, y8]"
    using length9 [of "r ci"] by (auto simp: calib_base_def)
  from assms obtain z0 z1 z2 z3 z4 z5 z6 z7 z8 z9 z10 z11
    where pe: "p ci = [z0, z1, z2, z3, z4, z5, z6, z7, z8, z9, z10, z11]"
    using length12 [of "p ci"] by (auto simp: calib_base_def)
  from assms ke have z: "x1 = 0" "x3 = 0" "x6 = 0" "x7 = 0"
    by (simp_all add: calib_base_def)
  show "k (fill_calib fid i ci) = [fx i, 0, ppx i, 0, fy i, ppy i, 0, 0, 1]"
    by (simp add: fill_calib_def Let_def ke z)
  show "p (fill_calib fid i ci) = [fx i, 0, ppx i, 0, 0, fy i, ppy i, 0, 0, 0, 1, 0]"
    by (simp add: fill_calib_def Let_def ke pe)
  show "r (fill_calib fid i ci) = [1, 0, 0, 0, 1, 0, 0, 0, 1]"
    by (simp add: fill_calib_def Let_def re)
  show "distortion_model (fill_calib fid i ci) = ''plumb_bob''"
    by (simp add: fill_calib_def Let_def)
  show "d (fill_calib fid i ci) = [coeffs i ! 0, coeffs i ! 1, coeffs i ! 2, coeffs i ! 3, coeffs i ! 4]"
    by (simp add: fill_calib_def Let_def fill_d)
  show "frame_id (header (fill_calib fid i ci)) = fid"
    by (simp add: fill_calib_def Let_def)
  show "stamp (header (fill_calib fid i ci)) = stamp (header ci)"
    by (simp add: fill_calib_def Let_def)
qed

lemma calib_base_fill: "calib_base ci \<Longrightarrow> calib_base (fill_calib fid i ci)"
  by (simp add: calib_base_def fill_calib_values)

lemma calib_base_init: "calib_base CameraInfo_init"
  by (simp add: calib_base_def CameraInfo_init_def numeral_eq_Suc)

lemma calib_base_p [simp]: "calib_base (ci\<lparr>p := (p ci)[3 := 0, 7 := 0]\<rparr>) = calib_base ci"
  by (simp add: calib_base_def)

lemma calib_base_header [simp]: "calib_base (ci\<lparr>header := h\<rparr>) = calib_base ci"
  by (simp add: calib_base_def)


lemma updateVideoStreamCalibData_calib:
  assumes "updateVideoStreamCalibData E st v = Inr st'" and "\<forall>s. calib_base (camera_info st s)"
  shows "\<forall>s. calib_base (camera_info st' s)"
  using assms
  by (auto simp: updateVideoStreamCalibData_def and_then_Inr Let_def calib_base_fill
      simp del: split_paired_All)

lemma update_profiles_calib:
  "update_profiles E st ps = Inr st' \<Longrightarrow> \<forall>s. calib_base (camera_info st s) \<Longrightarrow>
     \<forall>s. calib_base (camera_info st' s)"
proof (induction E st ps rule: update_profiles.induct)
  case (2 E st v rest)
  from "2.prems"(1) obtain st1 where a: "updateVideoStreamCalibData E st v = Inr st1"
    and b: "update_profiles E st1 rest = Inr st'"
    by (auto simp: and_then_Inr)
  from "2.IH" [OF b updateVideoStreamCalibData_calib [OF a "2.prems"(2)]] show ?case .
qed simp_all

lemma startPipeline_calib:
  assumes "startPipeline E st = Inr st'" and "\<forall>s. calib_base (camera_info st s)"
  shows "\<forall>s. calib_base (camera_info st' s)"
  using assms
  by (auto simp: startPipeline_def and_then_Inr split: option.splits dest: update_profiles_calib)

lemma publishImageTopic_calib:
  assumes "publishImageTopic E st frame t = Inr st'" and "\<forall>s. calib_base (camera_info st s)"
  shows "\<forall>s. calib_base (camera_info st' s)"
  using assms
  by (auto simp: publishImageTopic_def and_then_Inr Let_def split: option.splits)

lemma step_calib:
  assumes "step E st c = Inr st'" and "\<forall>s. calib_base (camera_info st s)"
  shows "\<forall>s. calib_base (camera_info st' s)"
proof (cases c)
  case (SetupStream x)
  with assms show ?thesis by (auto dest!: setupStream_change)
next
  case StartPipeline
  with assms show ?thesis by (auto dest: startPipeline_calib)
next
  case (UpdateVideoStreamCalibData v)
  with assms show ?thesis by (auto dest: updateVideoStreamCalibData_calib)
next
  case (PublishImageTopic frame t)
  with assms show ?thesis by (auto dest: publishImageTopic_calib)
next
  case (ToggleStream x param)
  with assms show ?thesis by (auto simp: and_then_Inr dest!: toggleStream_change)
next
  case (ChangeResolution x param)
  with assms show ?thesis by (auto simp: and_then_Inr dest!: changeResolution_change)
next
  case (ChangeFPS x param)
  with assms show ?thesis by (auto simp: and_then_Inr dest!: changeFPS_change)
qed

lemma run_calib:
  "run E st cs = Inr st' \<Longrightarrow> \<forall>s. calib_base (camera_info st s) \<Longrightarrow>
     \<forall>s. calib_base (camera_info st' s)"
proof (induction cs arbitrary: st)
  case Nil
  then show ?case by simp
next
  case (Cons c cs)
  from Cons.prems(1) obtain st1 where a: "step E st c = Inr st1" and b: "run E st1 cs = Inr st'"
    by (auto simp: and_then_Inr)
  from Cons.IH [OF b step_calib [OF a Cons.prems(2)]] show ?case .
qed

lemma reachable_calib: "run E RealSenseBase_init cs = Inr st \<Longrightarrow> calib_base (camera_info st s)"
  using run_calib [of E RealSenseBase_init cs st]
  by (simp add: RealSenseBase_init_def calib_base_init del: split_paired_All)

lemma updateVideoStreamCalibData_returns:
  "OPTICAL_FRAME_ID E (stream_type v, stream_index v) = Some fid \<Longrightarrow>
     \<exists>st'. updateVideoStreamCalibData E st v = Inr st'"
  by (simp add: updateVideoStreamCalibData_def and_then_def map_at_def Let_def)

lemma updateVideoStreamCalibData_result:
  assumes "updateVideoStreamCalibData E st v = Inr st'"
    and "ti = (stream_type v, stream_index v)"
  shows "\<exists>fid. OPTICAL_FRAME_ID E ti = Some fid \<and>
           camera_info st' ti =
             (if ti = DEPTH \<and> enable st DEPTH \<and> enable st COLOR
              then (fill_calib fid (get_intrinsics v) (camera_info st ti))
                     \<lparr>p := (p (fill_calib fid (get_intrinsics v) (camera_info st ti)))
                             [3 := 0, 7 := 0]\<rparr>
              else fill_calib fid (get_intrinsics v) (camera_info st ti))"
  using assms
  by (auto simp: updateVideoStreamCalibData_def and_then_Inr map_at_Inr Let_def)

lemma depth_profile_stream: "(stream_type depth_profile, stream_index depth_profile) = DEPTH"
  by (simp add: depth_profile_def DEPTH_def)

lemma depth_frame_id: "OPTICAL_FRAME_ID example_env DEPTH = Some ''camera_depth_optical_frame''"
  by (simp add: example_env_def stream_defs)



text \<open>
  C9. On an object reached from construction by any sequence of calls, after
  \<open>updateVideoStreamCalibData\<close> returns for a video profile with intrinsics
  \<open>fx, fy, ppx, ppy, coeffs\<close>, the camera info of the profile's stream has
  \<open>K = [fx, 0, ppx, 0, fy, ppy, 0, 0, 1]\<close>, \<open>P = [fx, 0, ppx, 0, 0, fy, ppy, 0, 0, 0, 1, 0]\<close>,
  \<open>R\<close> the identity, the distortion model "plumb_bob", \<open>d\<close> the five coefficients
  \<open>coeffs[0..4]\<close>, and the frame id \<open>OPTICAL_FRAME_ID[(kind, index)]\<close>.
\<close>

theorem calibration_from_intrinsics:
  assumes "run E RealSenseBase_init cs = Inr st"
    and "updateVideoStreamCalibData E st v = Inr st'"
  shows "k (camera_info st' (stream_type v, stream_index v)) =
           [fx (get_intrinsics v), 0, ppx (get_intrinsics v),
            0, fy (get_intrinsics v), ppy (get_intrinsics v),
            0, 0, 1] \<and>
         p (camera_info st' (stream_type v, stream_index v)) =
           [fx (get_intrinsics v), 0, ppx (get_intrinsics v), 0,
            0, fy (get_intrinsics v), ppy (get_intrinsics v), 0,
            0, 0, 1, 0] \<and>
         r (camera_info st' (stream_type v, stream_index v)) = [1, 0, 0, 0, 1, 0, 0, 0, 1] \<and>
         distortion_model (camera_info st' (stream_type v, stream_index v)) = ''plumb_bob'' \<and>
         d (camera_info st' (stream_type v, stream_index v)) =
           [coeffs (get_intrinsics v) ! 0, coeffs (get_intrinsics v) ! 1,
            coeffs (get_intrinsics v) ! 2, coeffs (get_intrinsics v) ! 3,
            coeffs (get_intrinsics v) ! 4] \<and>
         OPTICAL_FRAME_ID E (stream_type v, stream_index v) =
           Some (frame_id (header (camera_info st' (stream_type v, stream_index v))))"
proof -
  define ti where "ti = (stream_type v, stream_index v)"
  have b: "calib_base (camera_info st ti)"
    using assms(1) by (rule reachable_calib)
  from updateVideoStreamCalibData_result [OF assms(2) ti_def]
  obtain fid where f: "OPTICAL_FRAME_ID E ti = Some fid"
    and c: "camera_info st' ti =
      (if ti = DEPTH \<and> enable st DEPTH \<and> enable st COLOR
       then (fill_calib fid (get_intrinsics v) (camera_info st ti))
              \<lparr>p := (p (fill_calib fid (get_intrinsics v) (camera_info st ti)))[3 := 0, 7 := 0]\<rparr>
       else fill_calib fid (get_intrinsics v) (camera_info st ti))"
    by blast
  define ci where "ci = fill_calib fid (get_intrinsics v) (camera_info st ti)"
  note vs = fill_calib_values [OF b, of fid "get_intrinsics v", folded ci_def]
  show ?thesis
    unfolding ti_def [symmetric] c f ci_def [symmetric]
    by (simp add: vs)
qed

theorem calibration_from_intrinsics_witness:
  "\<exists>st'. updateVideoStreamCalibData example_env color_enabled depth_profile = Inr st' \<and>
      k (camera_info st' DEPTH) = [380, 0, 320, 0, 381, 240, 0, 0, 1] \<and>
      p (camera_info st' DEPTH) = [380, 0, 320, 0, 0, 381, 240, 0, 0, 0, 1, 0] \<and>
      r (camera_info st' DEPTH) = [1, 0, 0, 0, 1, 0, 0, 0, 1] \<and>
      distortion_model (camera_info st' DEPTH) = ''plumb_bob'' \<and>
      d (camera_info st' DEPTH) = [1, 2, 3, 4, 5] \<and>
      frame_id (header (camera_info st' DEPTH)) = ''camera_depth_optical_frame''"
proof -
  obtain st' where u: "updateVideoStreamCalibData example_env color_enabled depth_profile = Inr st'"
    using updateVideoStreamCalibData_returns [of example_env depth_profile]
      depth_frame_id depth_profile_stream by auto
  show ?thesis
    using calibration_from_intrinsics [OF run_setup_color u] u depth_frame_id
    by (simp add: depth_profile_stream) (simp add: depth_profile_def)
qed



end
